theory Spec2Isabelle
  imports Complex_Main
begin

section \<open>JSON values and the JavaScript operations applied to them\<close>

text \<open>
  The background script (\<^verbatim>\<open>src/extension/background.js\<close>) exchanges JSON values with the
  native process and with the popup. A value is what \<^verbatim>\<open>JSON.parse\<close> returns; a number
  is carried as the text \<^verbatim>\<open>String(n)\<close> gives for it, which is all the script ever does with
  one. An object is the list of its own properties, each key once. The JavaScript value
  \<^verbatim>\<open>undefined\<close> is \<open>None\<close> of \<open>json option\<close>.
\<close>

datatype json =
    JNull
  | JBool bool
  | JNum string
  | JStr string
  | JArr "json list"
  | JObj "(string \<times> json) list"

datatype js_error = TypeError | InvalidStateError | ConnectFailed | PortClosed

text \<open>
  \<open>js_get m k\<close> is the property read \<^verbatim>\<open>m.k\<close> for a value \<open>m\<close> other than \<^verbatim>\<open>null\<close> and for
  the keys the script reads (action, status, type, text, is_recording, config): only an
  object has them. Reading a property of \<^verbatim>\<open>null\<close> throws a TypeError; the handlers below test
  for \<open>JNull\<close> before their first read.
\<close>

fun js_get :: "json \<Rightarrow> string \<Rightarrow> json option" where
  "js_get (JObj kvs) k = map_of kvs k"
| "js_get v k = None"

fun join_comma :: "string list \<Rightarrow> string" where
  "join_comma [] = ''''"
| "join_comma [s] = s"
| "join_comma (s # t # ts) = s @ '','' @ join_comma (t # ts)"

text \<open>
  \<open>js_to_string\<close> is the conversion a template literal \<^verbatim>\<open>`${v}`\<close> applies. An array is
  joined with commas, \<^verbatim>\<open>null\<close> elements giving the empty string. A plain object gives
  \<^verbatim>\<open>[object Object]\<close>, unless it has an own property \<^verbatim>\<open>toString\<close>: that one shadows
  \<^verbatim>\<open>Object.prototype.toString\<close>, is not callable (it came from JSON), \<^verbatim>\<open>valueOf\<close> returns
  the object itself, and the conversion throws a TypeError (\<open>None\<close>).
\<close>

fun js_to_string :: "json \<Rightarrow> string option" where
  "js_to_string JNull = Some ''null''"
| "js_to_string (JBool b) = Some (if b then ''true'' else ''false'')"
| "js_to_string (JNum n) = Some n"
| "js_to_string (JStr s) = Some s"
| "js_to_string (JArr xs) =
     map_option join_comma
       (those (map (\<lambda>x. if x = JNull then Some '''' else js_to_string x) xs))"
| "js_to_string (JObj kvs) =
     (if ''toString'' \<in> fst ` set kvs then None else Some ''[object Object]'')"

definition js_template :: "json option \<Rightarrow> string option" where
  "js_template v = (case v of None \<Rightarrow> Some ''undefined'' | Some x \<Rightarrow> js_to_string x)"

section \<open>The state of the background script and of the platform around it\<close>

datatype readyState = CONNECTING | OPEN | CLOSING | CLOSED

text \<open>
  A WebSocket object: its \<^verbatim>\<open>readyState\<close>, and whether \<^verbatim>\<open>setupWebSocketListeners\<close> has
  installed \<^verbatim>\<open>onmessage\<close> and \<^verbatim>\<open>onclose\<close> on it (\<^verbatim>\<open>onopen\<close> and \<^verbatim>\<open>onerror\<close> are
  installed when it is created). Sockets and ports live in a store and are referred to by
  their index, since the script keeps references to objects the platform changes.
\<close>

record websocket =
  readyState :: readyState
  has_listeners :: bool

record port =
  port_name :: string
  connected :: bool

datatype icon = Icon_idle | Icon_recording | Icon_error

record alarm_info =
  delayInMinutes :: rat
  periodInMinutes :: rat

datatype ui_message =
    INITIAL_STATE bool string string
  | NATIVE_APP_MESSAGE json

text \<open>
  An async function suspended at an \<^verbatim>\<open>await\<close> of a storage read. The value read is fixed
  when the read is issued (the store serves the requests of the script in the order it
  issued them); the function goes on when the reply arrives.
\<close>

datatype task =
    TranscriptRead "string option" "json option"
  | InitialSessionRead nat "bool option"
  | InitialLocalRead nat "bool option" "string option" "string option"

record state =
  sockets :: "websocket list"
  ports :: "port list"
  nativeWebSocket :: "nat option"
  popupPort :: "nat option"
  connectionPromise :: "nat option"
  awaiting_connection :: "(nat \<times> json) list"
  awaiting_storage :: "task list"
  session_isRecording :: "bool option"
  session_config :: "json option"
  local_transcript :: "string option"
  local_summary :: "string option"
  alarm :: "alarm_info option"
  icon :: "icon option"
  badgeText :: string
  native_out :: "(nat \<times> json) list"
  ui_out :: "(nat \<times> ui_message) list"

text \<open>
  \<open>connectionPromise\<close> holds the index of the socket whose connect attempt the pending
  promise stands for. \<open>awaiting_connection\<close> are the calls of \<^verbatim>\<open>sendMessageToNative\<close>
  suspended at \<^verbatim>\<open>await getWebSocket()\<close>, each with the promise it waits for and its message.
  \<open>alarm\<close> is the alarm named \<^verbatim>\<open>websocket-health-check\<close>, the only one the script uses.
  \<open>native_out\<close> are the messages handed to \<^verbatim>\<open>ws.send\<close> of an open socket, \<open>ui_out\<close> the
  messages posted on a port. Console output, the badge colour and the tooltip are left out.
\<close>

definition ALARM_HEALTH_CHECK :: string where
  "ALARM_HEALTH_CHECK = ''websocket-health-check''"

definition initial_state :: state where
  "initial_state =
     \<lparr>sockets = [], ports = [], nativeWebSocket = None, popupPort = None,
      connectionPromise = None, awaiting_connection = [], awaiting_storage = [],
      session_isRecording = None, session_config = None,
      local_transcript = None, local_summary = None,
      alarm = None, icon = None, badgeText = '''',
      native_out = [], ui_out = []\<rparr>"

definition socket_state :: "state \<Rightarrow> nat \<Rightarrow> readyState option" where
  "socket_state st w =
     (if w < length (sockets st) then Some (readyState (sockets st ! w)) else None)"

definition set_readyState :: "nat \<Rightarrow> readyState \<Rightarrow> state \<Rightarrow> state" where
  "set_readyState w r st =
     (if w < length (sockets st)
      then st\<lparr>sockets := (sockets st)[w := (sockets st ! w)\<lparr>readyState := r\<rparr>]\<rparr>
      else st)"

section \<open>Icon and badge\<close>

definition updateIcon :: "icon \<Rightarrow> state \<Rightarrow> state" where
  "updateIcon s st = st\<lparr>icon := Some s\<rparr>"

definition updateBadge :: "bool \<Rightarrow> state \<Rightarrow> state" where
  "updateBadge isRecording st =
     (if isRecording then updateIcon Icon_recording (st\<lparr>badgeText := ''REC''\<rparr>)
      else (case nativeWebSocket st of
              None \<Rightarrow> updateIcon Icon_idle (st\<lparr>badgeText := ''''\<rparr>)
            | Some w \<Rightarrow>
                if socket_state st w = Some OPEN
                then updateIcon Icon_idle (st\<lparr>badgeText := ''''\<rparr>)
                else updateIcon Icon_error (st\<lparr>badgeText := ''''\<rparr>)))"

section \<open>Storage writes and the storage change listener\<close>

text \<open>
  The listener of \<^verbatim>\<open>chrome.storage.onChanged\<close>, for a change of the session key
  \<^verbatim>\<open>session_isRecording\<close> to \<open>newValue\<close>. Changes of other keys and of the local area fall
  through its guard and do nothing.
\<close>

definition health_check_alarm :: alarm_info where
  "health_check_alarm = \<lparr>delayInMinutes = 3 / 10, periodInMinutes = 3 / 10\<rparr>"

definition storage_onChanged :: "bool \<Rightarrow> state \<Rightarrow> state" where
  "storage_onChanged newValue st =
     (if newValue
      then (updateBadge True st)\<lparr>alarm := Some health_check_alarm\<rparr>
      else (updateBadge False st)\<lparr>alarm := None\<rparr>)"

text \<open>
  \<^verbatim>\<open>chrome.storage.session.set({session_isRecording: v})\<close>. The platform reports a change
  only of a key whose stored value differs from the one written; the listener runs in the
  step of the write.
\<close>

definition session_set_isRecording :: "bool \<Rightarrow> state \<Rightarrow> state" where
  "session_set_isRecording v st =
     (if session_isRecording st = Some v then st
      else storage_onChanged v (st\<lparr>session_isRecording := Some v\<rparr>))"

section \<open>The popup port\<close>

definition postMessage :: "nat \<Rightarrow> ui_message \<Rightarrow> state \<Rightarrow> js_error + state" where
  "postMessage p m st =
     (if p < length (ports st) \<and> connected (ports st ! p)
      then Inr (st\<lparr>ui_out := ui_out st @ [(p, m)]\<rparr>)
      else Inl PortClosed)"

definition broadcastToUI :: "ui_message \<Rightarrow> state \<Rightarrow> state" where
  "broadcastToUI m st =
     (case popupPort st of
        None \<Rightarrow> st
      | Some p \<Rightarrow> (case postMessage p m st of Inr st' \<Rightarrow> st' | Inl e \<Rightarrow> st))"

section \<open>Connection management\<close>

text \<open>
  What \<^verbatim>\<open>getWebSocket\<close> hands to its caller: the open socket, or the pending promise of a
  connect attempt.
\<close>

datatype handle = Ready nat | Pending nat

definition getWebSocket :: "state \<Rightarrow> handle \<times> state" where
  "getWebSocket st =
     (case (case nativeWebSocket st of
              None \<Rightarrow> None
            | Some w \<Rightarrow> if socket_state st w = Some OPEN then Some w else None) of
        Some w \<Rightarrow> (Ready w, st)
      | None \<Rightarrow>
          (case connectionPromise st of
             Some p \<Rightarrow> (Pending p, st)
           | None \<Rightarrow>
               (Pending (length (sockets st)),
                st\<lparr>sockets := sockets st @ [\<lparr>readyState = CONNECTING, has_listeners = False\<rparr>],
                   connectionPromise := Some (length (sockets st))\<rparr>)))"

text \<open>
  \<^verbatim>\<open>ws.send\<close>: it throws on a socket that is still connecting, transmits on an open one and
  drops the data silently on a closing or closed one.
\<close>

definition ws_send :: "nat \<Rightarrow> json \<Rightarrow> state \<Rightarrow> js_error + state" where
  "ws_send w message st =
     (case socket_state st w of
        Some CONNECTING \<Rightarrow> Inl InvalidStateError
      | Some OPEN \<Rightarrow> Inr (st\<lparr>native_out := native_out st @ [(w, message)]\<rparr>)
      | _ \<Rightarrow> Inr st)"

datatype 'a settled = Fulfilled 'a | Rejected

definition connect_error_text :: string where
  "connect_error_text =
     [CHR 0x4B, CHR 0x68, CHR 0xC3, CHR 0xB4, CHR 0x6E, CHR 0x67, CHR 0x20, CHR 0x74,
      CHR 0x68, CHR 0xE1, CHR 0xBB, CHR 0x83, CHR 0x20, CHR 0x6B, CHR 0xE1, CHR 0xBA,
      CHR 0xBF, CHR 0x74, CHR 0x20, CHR 0x6E, CHR 0xE1, CHR 0xBB, CHR 0x91, CHR 0x69,
      CHR 0x20, CHR 0x76, CHR 0xE1, CHR 0xBB, CHR 0x9B, CHR 0x69, CHR 0x20, CHR 0xE1,
      CHR 0xBB, CHR 0xA9, CHR 0x6E, CHR 0x67, CHR 0x20, CHR 0x64, CHR 0xE1, CHR 0xBB,
      CHR 0xA5, CHR 0x6E, CHR 0x67, CHR 0x20, CHR 0x6E, CHR 0x61, CHR 0x74, CHR 0x69,
      CHR 0x76, CHR 0x65, CHR 0x2E]"

definition connect_error_envelope :: ui_message where
  "connect_error_envelope =
     NATIVE_APP_MESSAGE
       (JObj [(''status'', JStr ''error''), (''message'', JStr connect_error_text)])"

text \<open>
  \<^verbatim>\<open>sendMessageToNative\<close> from its \<^verbatim>\<open>await\<close> on: \<open>r\<close> is how the awaited handle settled.
  \<open>sendMessageToNative_try\<close> is the rest of the \<^verbatim>\<open>try\<close> block, \<open>sendMessageToNative_resume\<close>
  the function with its \<^verbatim>\<open>catch\<close>; its result is how the promise of the async function
  settles (\<open>Inl\<close>: rejected with an exception).
\<close>

definition sendMessageToNative_try :: "nat settled \<Rightarrow> json \<Rightarrow> state \<Rightarrow> js_error + state" where
  "sendMessageToNative_try r message st =
     (case r of Rejected \<Rightarrow> Inl ConnectFailed | Fulfilled w \<Rightarrow> ws_send w message st)"

definition sendMessageToNative_resume :: "nat settled \<Rightarrow> json \<Rightarrow> state \<Rightarrow> js_error + state" where
  "sendMessageToNative_resume r message st =
     (case sendMessageToNative_try r message st of
        Inr st' \<Rightarrow> Inr st'
      | Inl e \<Rightarrow> Inr (session_set_isRecording False (broadcastToUI connect_error_envelope st)))"

text \<open>
  No caller awaits the promise of an async function of this script: a rejection is dropped
  and the state is what the function left.
\<close>

definition unawaited :: "js_error + state \<Rightarrow> state \<Rightarrow> state" where
  "unawaited r st = (case r of Inr st' \<Rightarrow> st' | Inl e \<Rightarrow> st)"

text \<open>
  A call of \<^verbatim>\<open>sendMessageToNative\<close>. With an open socket the awaited handle is settled
  already and the function resumes before any other event; otherwise the call waits for
  the connect attempt.
\<close>

definition sendMessageToNative :: "json \<Rightarrow> state \<Rightarrow> state" where
  "sendMessageToNative message st =
     (case getWebSocket st of
        (Ready w, st') \<Rightarrow> unawaited (sendMessageToNative_resume (Fulfilled w) message st') st'
      | (Pending p, st') \<Rightarrow>
          st'\<lparr>awaiting_connection := awaiting_connection st' @ [(p, message)]\<rparr>)"

text \<open>
  Settling the promise of the connect attempt \<open>p\<close>: every call waiting for it resumes, in
  the order of the calls, with the same outcome.
\<close>

definition settle :: "nat \<Rightarrow> nat settled \<Rightarrow> state \<Rightarrow> state" where
  "settle p r st =
     foldl (\<lambda>s qm. unawaited (sendMessageToNative_resume r (snd qm) s) s)
       (st\<lparr>awaiting_connection := filter (\<lambda>qm. fst qm \<noteq> p) (awaiting_connection st)\<rparr>)
       (filter (\<lambda>qm. fst qm = p) (awaiting_connection st))"

section \<open>Transcript storage\<close>

definition newline :: string where
  "newline = [CHR 0x0A]"

text \<open>
  \<^verbatim>\<open>updateTranscriptStorage\<close> up to its \<^verbatim>\<open>await\<close>: the read of the transcript is issued.
\<close>

definition updateTranscriptStorage :: "json option \<Rightarrow> state \<Rightarrow> state" where
  "updateTranscriptStorage newText st =
     st\<lparr>awaiting_storage := awaiting_storage st @ [TranscriptRead (local_transcript st) newText]\<rparr>"

text \<open>
  \<^verbatim>\<open>updateTranscriptStorage\<close> after its \<^verbatim>\<open>await\<close>: \<open>now\<close> is the time token
  \<^verbatim>\<open>new Date().toLocaleTimeString('vi-VN')\<close> gives at that moment, \<open>currentTranscript\<close> the
  value the read returned.
\<close>

definition updateTranscriptStorage_resume ::
  "string \<Rightarrow> string option \<Rightarrow> json option \<Rightarrow> state \<Rightarrow> js_error + state" where
  "updateTranscriptStorage_resume now currentTranscript newText st =
     (case js_template newText of
        None \<Rightarrow> Inl TypeError
      | Some t \<Rightarrow>
          Inr (st\<lparr>local_transcript :=
                 Some ((case currentTranscript of
                          None \<Rightarrow> ''''
                        | Some c \<Rightarrow> if c = '''' then '''' else c @ newline)
                       @ ''['' @ now @ ''] '' @ t)\<rparr>))"

section \<open>Inbound native messages\<close>

text \<open>
  The \<^verbatim>\<open>try\<close> block of \<^verbatim>\<open>ws.onmessage\<close> after \<^verbatim>\<open>JSON.parse\<close>. Every exception of the
  block is thrown before its first write.
\<close>

definition ws_onmessage_try :: "string \<Rightarrow> json \<Rightarrow> state \<Rightarrow> js_error + state" where
  "ws_onmessage_try now message st =
     (if message = JNull then Inl TypeError
      else if js_get message ''action'' = Some (JStr ''get_status'') then
        Inr (broadcastToUI (NATIVE_APP_MESSAGE message)
               (session_set_isRecording (js_get message ''is_recording'' = Some (JBool True)) st))
      else if js_get message ''status'' = Some (JStr ''error'') then
        Inr (broadcastToUI (NATIVE_APP_MESSAGE message) (session_set_isRecording False st))
      else if js_get message ''action'' = Some (JStr ''transcript'')
              \<and> js_get message ''type'' = Some (JStr ''final'') then
        Inr (broadcastToUI (NATIVE_APP_MESSAGE message)
               (updateTranscriptStorage (js_get message ''text'') st))
      else if js_get message ''action'' = Some (JStr ''summary_update'') then
        (case js_template (js_get message ''text'') of
           None \<Rightarrow> Inl TypeError
         | Some t \<Rightarrow>
             Inr (broadcastToUI (NATIVE_APP_MESSAGE message)
                    (st\<lparr>local_summary := Some (''['' @ now @ ''] '' @ newline @ '' '' @ t)\<rparr>)))
      else Inr (broadcastToUI (NATIVE_APP_MESSAGE message) st))"

text \<open>
  \<^verbatim>\<open>ws.onmessage\<close>. \<open>JSON_parse\<close> is the platform's parser, \<open>None\<close> where it throws; the
  \<^verbatim>\<open>catch\<close> only logs.
\<close>

definition ws_onmessage :: "(string \<Rightarrow> json option) \<Rightarrow> string \<Rightarrow> string \<Rightarrow> state \<Rightarrow> state" where
  "ws_onmessage JSON_parse now data st =
     (case JSON_parse data of
        None \<Rightarrow> st
      | Some message \<Rightarrow>
          (case ws_onmessage_try now message st of Inr st' \<Rightarrow> st' | Inl e \<Rightarrow> st))"

definition ws_onclose :: "state \<Rightarrow> state" where
  "ws_onclose st =
     session_set_isRecording False (updateIcon Icon_error (st\<lparr>nativeWebSocket := None\<rparr>))"

definition setupWebSocketListeners :: "nat \<Rightarrow> state \<Rightarrow> state" where
  "setupWebSocketListeners w st =
     (if w < length (sockets st)
      then st\<lparr>sockets := (sockets st)[w := (sockets st ! w)\<lparr>has_listeners := True\<rparr>]\<rparr>
      else st)"

definition ws_onopen :: "nat \<Rightarrow> state \<Rightarrow> state" where
  "ws_onopen w st =
     settle w (Fulfilled w)
       ((updateIcon Icon_idle (setupWebSocketListeners w (st\<lparr>nativeWebSocket := Some w\<rparr>)))
          \<lparr>connectionPromise := None\<rparr>)"

definition ws_onerror :: "nat \<Rightarrow> state \<Rightarrow> state" where
  "ws_onerror w st =
     settle w Rejected
       ((updateIcon Icon_error (st\<lparr>nativeWebSocket := None\<rparr>))\<lparr>connectionPromise := None\<rparr>)"

section \<open>The popup: connection and commands\<close>

definition msg_action :: "string \<Rightarrow> json" where
  "msg_action a = JObj [(''action'', JStr a)]"

text \<open>
  \<^verbatim>\<open>chrome.runtime.onConnect\<close>: a port of the given name connects. The async block of the
  listener runs to its first \<^verbatim>\<open>await\<close>, a read of the session area.
\<close>

definition runtime_onConnect :: "string \<Rightarrow> state \<Rightarrow> state" where
  "runtime_onConnect name st =
     (if name = ''popup-connection''
      then st\<lparr>ports := ports st @ [\<lparr>port_name = name, connected = True\<rparr>],
              popupPort := Some (length (ports st)),
              awaiting_storage := awaiting_storage st
                 @ [InitialSessionRead (length (ports st)) (session_isRecording st)]\<rparr>
      else st\<lparr>ports := ports st @ [\<lparr>port_name = name, connected = True\<rparr>]\<rparr>)"

text \<open>
  A port disconnects; the listener of \<^verbatim>\<open>port.onDisconnect\<close> was added to the ports named
  \<^verbatim>\<open>popup-connection\<close> only.
\<close>

definition port_onDisconnect :: "nat \<Rightarrow> state \<Rightarrow> state" where
  "port_onDisconnect p st =
     (if p < length (ports st) \<and> connected (ports st ! p)
      then (if port_name (ports st ! p) = ''popup-connection''
            then st\<lparr>ports := (ports st)[p := (ports st ! p)\<lparr>connected := False\<rparr>],
                    popupPort := None\<rparr>
            else st\<lparr>ports := (ports st)[p := (ports st ! p)\<lparr>connected := False\<rparr>]\<rparr>)
      else st)"

definition handleUICommand :: "json \<Rightarrow> state \<Rightarrow> state" where
  "handleUICommand message st =
     (if message = JNull then st
      else if js_get message ''type'' = Some (JStr ''START_CAPTURE'') then
        sendMessageToNative
          (JObj ((''action'', JStr ''start_capture'')
                 # (case js_get message ''config'' of None \<Rightarrow> [] | Some c \<Rightarrow> [(''data'', c)])))
          st
      else if js_get message ''type'' = Some (JStr ''STOP_CAPTURE'') then
        sendMessageToNative (msg_action ''stop_capture'') st
      else if js_get message ''type'' = Some (JStr ''CLEAR_TRANSCRIPT'') then
        broadcastToUI
          (NATIVE_APP_MESSAGE (JObj [(''action'', JStr ''transcript''), (''type'', JStr ''clear'')]))
          (st\<lparr>local_transcript := Some '''', local_summary := Some ''''\<rparr>)
      else if js_get message ''type'' = Some (JStr ''GET_DEVICES'') then
        sendMessageToNative (msg_action ''get_devices'') st
      else if js_get message ''type'' = Some (JStr ''GET_STATUS'') then
        sendMessageToNative (msg_action ''get_status'') st
      else st)"

text \<open>
  The reply to the storage read of a suspended function arrives and the function goes on:
  \<^verbatim>\<open>updateTranscriptStorage\<close> to its end, the async block of the connect listener to its
  next \<^verbatim>\<open>await\<close> or to its end. A \<^verbatim>\<open>postMessage\<close> that throws ends the block.
\<close>

fun resume_task :: "string \<Rightarrow> task \<Rightarrow> state \<Rightarrow> state" where
  "resume_task now (TranscriptRead currentTranscript newText) st =
     unawaited (updateTranscriptStorage_resume now currentTranscript newText st) st"
| "resume_task now (InitialSessionRead p rec) st =
     st\<lparr>awaiting_storage := awaiting_storage st
           @ [InitialLocalRead p rec (local_transcript st) (local_summary st)]\<rparr>"
| "resume_task now (InitialLocalRead p rec tr su) st =
     (case postMessage p
             (INITIAL_STATE (rec = Some True)
                (case tr of None \<Rightarrow> '''' | Some t \<Rightarrow> t)
                (case su of None \<Rightarrow> '''' | Some s \<Rightarrow> s)) st of
        Inl e \<Rightarrow> st
      | Inr st' \<Rightarrow>
          sendMessageToNative (msg_action ''get_devices'')
            (sendMessageToNative (msg_action ''get_status'') st'))"

definition storage_reply :: "nat \<Rightarrow> string \<Rightarrow> state \<Rightarrow> state" where
  "storage_reply i now st =
     (if i < length (awaiting_storage st)
      then resume_task now (awaiting_storage st ! i)
             (st\<lparr>awaiting_storage := take i (awaiting_storage st) @ drop (Suc i) (awaiting_storage st)\<rparr>)
      else st)"

section \<open>Alarms and lifecycle\<close>

definition alarms_onAlarm :: "string \<Rightarrow> state \<Rightarrow> state" where
  "alarms_onAlarm name st =
     (if name = ALARM_HEALTH_CHECK then sendMessageToNative (msg_action ''ping'') st else st)"

text \<open>
  The listeners of \<^verbatim>\<open>chrome.runtime.onStartup\<close> and \<^verbatim>\<open>chrome.runtime.onInstalled\<close> have the
  same body.
\<close>

definition reset_state :: "state \<Rightarrow> state" where
  "reset_state st =
     updateBadge False
       ((session_set_isRecording False st)
          \<lparr>session_config := Some (JObj []),
           local_transcript := Some '''', local_summary := Some ''''\<rparr>)"

section \<open>Events\<close>

text \<open>
  Each event is one task of the event loop of the script: the handler and the promise
  reactions it makes runnable run to completion before the next event. A socket event
  names its socket, a storage reply the suspended function it resumes. An event that
  reads the clock carries the time token read.
\<close>

datatype event =
    Startup
  | Installed
  | PortConnect string
  | PortDisconnect nat
  | PortMessage json
  | SocketOpen nat
  | SocketClosing nat
  | SocketClosed nat bool
  | SocketMessage nat string string
  | StorageReply nat string
  | AlarmFired string

text \<open>
  A socket opens from CONNECTING only. When it closes, the platform sets CLOSED, fires
  \<^verbatim>\<open>error\<close> first if the connection failed (a connect attempt that ends has failed), then
  \<^verbatim>\<open>close\<close>. Messages arrive on an open socket.
\<close>

fun step :: "(string \<Rightarrow> json option) \<Rightarrow> event \<Rightarrow> state \<Rightarrow> state" where
  "step P Startup st = reset_state st"
| "step P Installed st = reset_state st"
| "step P (PortConnect name) st = runtime_onConnect name st"
| "step P (PortDisconnect p) st = port_onDisconnect p st"
| "step P (PortMessage message) st = handleUICommand message st"
| "step P (SocketOpen w) st =
     (if socket_state st w = Some CONNECTING then ws_onopen w (set_readyState w OPEN st) else st)"
| "step P (SocketClosing w) st =
     (if socket_state st w = Some OPEN then set_readyState w CLOSING st else st)"
| "step P (SocketClosed w failed) st =
     (case socket_state st w of
        None \<Rightarrow> st
      | Some CLOSED \<Rightarrow> st
      | Some r \<Rightarrow>
          (if has_listeners (sockets st ! w)
           then ws_onclose
                  (if failed then ws_onerror w (set_readyState w CLOSED st)
                   else set_readyState w CLOSED st)
           else ws_onerror w (set_readyState w CLOSED st)))"
| "step P (SocketMessage w data now) st =
     (if socket_state st w = Some OPEN \<and> has_listeners (sockets st ! w)
      then ws_onmessage P now data st else st)"
| "step P (StorageReply i now) st = storage_reply i now st"
| "step P (AlarmFired name) st = alarms_onAlarm name st"

definition run :: "(string \<Rightarrow> json option) \<Rightarrow> event list \<Rightarrow> state \<Rightarrow> state" where
  "run P es st = foldl (\<lambda>s e. step P e s) st es"

section \<open>Notions used to state the properties\<close>

subsection \<open>The dispatch rules of the message router\<close>

text \<open>
  The four dispatch rules of the router, in the order the specification lists them: when a
  rule matches a message, and the state update it stands for.
\<close>

datatype rule = StatusReport | ErrorReport | FinalTranscript | SummaryUpdate

fun rule_matches :: "rule \<Rightarrow> json \<Rightarrow> bool" where
  "rule_matches StatusReport m = (js_get m ''action'' = Some (JStr ''get_status''))"
| "rule_matches ErrorReport m = (js_get m ''status'' = Some (JStr ''error''))"
| "rule_matches FinalTranscript m =
     (js_get m ''action'' = Some (JStr ''transcript'') \<and> js_get m ''type'' = Some (JStr ''final''))"
| "rule_matches SummaryUpdate m = (js_get m ''action'' = Some (JStr ''summary_update''))"

fun rule_update :: "rule \<Rightarrow> string \<Rightarrow> json \<Rightarrow> state \<Rightarrow> js_error + state" where
  "rule_update StatusReport now m st =
     Inr (session_set_isRecording (js_get m ''is_recording'' = Some (JBool True)) st)"
| "rule_update ErrorReport now m st = Inr (session_set_isRecording False st)"
| "rule_update FinalTranscript now m st = Inr (updateTranscriptStorage (js_get m ''text'') st)"
| "rule_update SummaryUpdate now m st =
     (case js_template (js_get m ''text'') of
        None \<Rightarrow> Inl TypeError
      | Some t \<Rightarrow> Inr (st\<lparr>local_summary := Some (''['' @ now @ ''] '' @ newline @ '' '' @ t)\<rparr>))"

definition dispatch_rules :: "rule list" where
  "dispatch_rules = [StatusReport, ErrorReport, FinalTranscript, SummaryUpdate]"

text \<open>
  The router as the specification words it: every rule is evaluated on its own and the
  update of every matching rule fires, then the message is forwarded.
\<close>

fun fire_all :: "rule list \<Rightarrow> string \<Rightarrow> json \<Rightarrow> state \<Rightarrow> js_error + state" where
  "fire_all [] now m st = Inr st"
| "fire_all (r # rs) now m st =
     (if rule_matches r m
      then (case rule_update r now m st of Inl e \<Rightarrow> Inl e | Inr st' \<Rightarrow> fire_all rs now m st')
      else fire_all rs now m st)"

definition forward :: "json \<Rightarrow> js_error + state \<Rightarrow> js_error + state" where
  "forward m r = (case r of Inl e \<Rightarrow> Inl e | Inr st \<Rightarrow> Inr (broadcastToUI (NATIVE_APP_MESSAGE m) st))"

definition route_as_specified :: "string \<Rightarrow> json \<Rightarrow> state \<Rightarrow> js_error + state" where
  "route_as_specified now m st =
     (if m = JNull then Inl TypeError else forward m (fire_all dispatch_rules now m st))"

text \<open>The recording flag an outcome leaves, where there is one.\<close>

definition flag_after :: "js_error + state \<Rightarrow> bool option" where
  "flag_after r = (case r of Inl e \<Rightarrow> None | Inr st \<Rightarrow> session_isRecording st)"

subsection \<open>Repeated calls, transcript lines, runs\<close>

definition connection_open :: "state \<Rightarrow> bool" where
  "connection_open st =
     (case nativeWebSocket st of None \<Rightarrow> False | Some w \<Rightarrow> socket_state st w = Some OPEN)"

text \<open>\<open>n\<close> calls of \<^verbatim>\<open>getWebSocket\<close> in a row: the handles returned and the state left.\<close>

fun getWebSocket_calls :: "nat \<Rightarrow> state \<Rightarrow> handle list \<times> state" where
  "getWebSocket_calls 0 st = ([], st)"
| "getWebSocket_calls (Suc n) st =
     (case getWebSocket st of
        (h, st') \<Rightarrow> (case getWebSocket_calls n st' of (hs, st'') \<Rightarrow> (h # hs, st'')))"

definition transcript_line :: "string \<Rightarrow> string \<Rightarrow> string" where
  "transcript_line now t = ''['' @ now @ ''] '' @ t"

fun join_lines :: "string list \<Rightarrow> string" where
  "join_lines [] = ''''"
| "join_lines [l] = l"
| "join_lines (l # m # ls) = l @ newline @ join_lines (m # ls)"

text \<open>The lines a stored transcript stands for before more are appended.\<close>

definition stored_lines :: "string option \<Rightarrow> string list" where
  "stored_lines tr = (case tr of None \<Rightarrow> [] | Some c \<Rightarrow> if c = '''' then [] else [c])"

text \<open>
  Frames delivered in turn on socket \<open>w\<close>: each comes with the time token of its arrival,
  the time token of its storage reply and the text of its line, and the reply to the
  storage read of a message arrives before the next message does.
\<close>

fun deliver_in_turn :: "nat \<Rightarrow> (string \<times> string \<times> string \<times> string) list \<Rightarrow> event list" where
  "deliver_in_turn w [] = []"
| "deliver_in_turn w ((data, arrived, now, t) # fs) =
     SocketMessage w data arrived # StorageReply 0 now # deliver_in_turn w fs"

definition is_final_transcript_frame ::
  "(string \<Rightarrow> json option) \<Rightarrow> string \<times> string \<times> string \<times> string \<Rightarrow> bool" where
  "is_final_transcript_frame P f =
     (case f of (data, arrived, now, t) \<Rightarrow>
        (case P data of
           None \<Rightarrow> False
         | Some m \<Rightarrow> rule_matches FinalTranscript m \<and> \<not> rule_matches ErrorReport m
                     \<and> js_template (js_get m ''text'') = Some t))"

subsection \<open>Example frames\<close>

text \<open>
  Frames used in the examples, with the value \<^verbatim>\<open>JSON.parse\<close> returns for each; the examples
  take every other text as one the parser rejects.
\<close>

definition frame_recording :: string where
  \<open>frame_recording = ''{"action":"get_status","is_recording":true}''\<close>

definition frame_recording_error :: string where
  \<open>frame_recording_error = ''{"action":"get_status","is_recording":true,"status":"error"}''\<close>

definition frame_hello :: string where
  \<open>frame_hello = ''{"action":"transcript","type":"final","text":"hello"}''\<close>

definition frame_world :: string where
  \<open>frame_world = ''{"action":"transcript","type":"final","text":"world"}''\<close>

definition frame_final_error :: string where
  \<open>frame_final_error = ''{"action":"transcript","type":"final","text":"hello","status":"error"}''\<close>

definition frame_partial :: string where
  \<open>frame_partial = ''{"action":"transcript","type":"partial","text":"hel"}''\<close>

definition frame_status_plain :: string where
  \<open>frame_status_plain = ''{"action":"get_status"}''\<close>

definition frame_status_number :: string where
  \<open>frame_status_number = ''{"action":"get_status","is_recording":1}''\<close>

definition msg_recording :: json where
  "msg_recording = JObj [(''action'', JStr ''get_status''), (''is_recording'', JBool True)]"

definition msg_recording_error :: json where
  "msg_recording_error =
     JObj [(''action'', JStr ''get_status''), (''is_recording'', JBool True),
           (''status'', JStr ''error'')]"

definition msg_final :: "string \<Rightarrow> json" where
  "msg_final t = JObj [(''action'', JStr ''transcript''), (''type'', JStr ''final''), (''text'', JStr t)]"

definition msg_final_error :: json where
  "msg_final_error =
     JObj [(''action'', JStr ''transcript''), (''type'', JStr ''final''),
           (''text'', JStr ''hello''), (''status'', JStr ''error'')]"

definition msg_partial :: json where
  "msg_partial =
     JObj [(''action'', JStr ''transcript''), (''type'', JStr ''partial''), (''text'', JStr ''hel'')]"

definition example_parse :: "string \<Rightarrow> json option" where
  "example_parse =
     map_of [(frame_recording, msg_recording), (frame_recording_error, msg_recording_error),
             (frame_hello, msg_final ''hello''), (frame_world, msg_final ''world''),
             (frame_final_error, msg_final_error), (frame_partial, msg_partial),
             (frame_status_plain, JObj [(''action'', JStr ''get_status'')]),
             (frame_status_number,
              JObj [(''action'', JStr ''get_status''), (''is_recording'', JNum ''1'')])]"

text \<open>
  The state after the popup asked for the status on a fresh script and the connect attempt
  succeeded: socket 0 is open and the request has been sent on it.
\<close>

definition example_connected :: state where
  "example_connected =
     run example_parse [PortMessage (JObj [(''type'', JStr ''GET_STATUS'')]), SocketOpen 0]
       initial_state"

text \<open>
  The state after the popup attached to a fresh script, both storage reads of the connect
  listener were answered and the connect attempt it started succeeded: the popup has its
  initial state, socket 0 is open and both requests have been sent on it.
\<close>

definition example_attached :: state where
  "example_attached =
     run example_parse
       [PortConnect ''popup-connection'', StorageReply 0 ''09:59:58'', StorageReply 0 ''09:59:59'',
        SocketOpen 0]
       initial_state"

text \<open>
  The state after the native process has reported on that connection that it is recording.
\<close>

definition example_recording :: state where
  "example_recording =
     step example_parse (SocketMessage 0 frame_recording ''10:00:00'') example_connected"

text \<open>
  The state, with the popup attached, after one final transcript segment was stored and a
  second one arrived whose storage read is still pending.
\<close>

definition example_transcribing :: state where
  "example_transcribing =
     run example_parse
       [SocketMessage 0 frame_hello ''10:00:01'', StorageReply 0 ''10:00:02'',
        SocketMessage 0 frame_hello ''10:00:03'']
       example_attached"

text \<open>
  The state after this run on a fresh script: the popup asks for the status and the
  connection, socket 0, opens; the native side starts the closing handshake of socket 0;
  the popup asks for the status again, which starts the connect attempt of socket 1; then
  socket 0 closes with an error while socket 1 is still connecting.
\<close>

definition example_stale_error :: state where
  "example_stale_error =
     run example_parse
       [PortMessage (JObj [(''type'', JStr ''GET_STATUS'')]), SocketOpen 0, SocketClosing 0,
        PortMessage (JObj [(''type'', JStr ''GET_STATUS'')]), SocketClosed 0 True]
       initial_state"

subsection \<open>The recording flag and the health-check alarm\<close>

text \<open>The alarm exists, with the options the script creates it with, exactly when the flag is true.\<close>

definition alarm_follows_flag :: "state \<Rightarrow> bool" where
  "alarm_follows_flag st \<longleftrightarrow>
     alarm st = (if session_isRecording st = Some True then Some health_check_alarm else None)"

text \<open>
  The events handled by the message router (a message on a socket) and the two lifecycle
  resets; and the event of a socket that closes.
\<close>

fun router_or_reset :: "event \<Rightarrow> bool" where
  "router_or_reset (SocketMessage w d now) = True"
| "router_or_reset Startup = True"
| "router_or_reset Installed = True"
| "router_or_reset e = False"

fun socket_closed :: "event \<Rightarrow> bool" where
  "socket_closed (SocketClosed w failed) = True"
| "socket_closed e = False"

section \<open>Basic facts\<close>

lemma run_Nil [simp]: "run P [] st = st"
  by (simp add: run_def)

lemma run_Cons [simp]: "run P (e # es) st = run P es (step P e st)"
  by (simp add: run_def)

lemma run_append: "run P (es @ fs) st = run P fs (run P es st)"
  by (simp add: run_def)

subsection \<open>What each operation leaves unchanged\<close>

lemma updateIcon_frame [simp]:
  "sockets (updateIcon s st) = sockets st"
  "ports (updateIcon s st) = ports st"
  "nativeWebSocket (updateIcon s st) = nativeWebSocket st"
  "popupPort (updateIcon s st) = popupPort st"
  "connectionPromise (updateIcon s st) = connectionPromise st"
  "awaiting_connection (updateIcon s st) = awaiting_connection st"
  "awaiting_storage (updateIcon s st) = awaiting_storage st"
  "session_isRecording (updateIcon s st) = session_isRecording st"
  "session_config (updateIcon s st) = session_config st"
  "local_transcript (updateIcon s st) = local_transcript st"
  "local_summary (updateIcon s st) = local_summary st"
  "alarm (updateIcon s st) = alarm st"
  "badgeText (updateIcon s st) = badgeText st"
  "native_out (updateIcon s st) = native_out st"
  "ui_out (updateIcon s st) = ui_out st"
  by (simp_all add: updateIcon_def)

lemma updateBadge_frame [simp]:
  "sockets (updateBadge b st) = sockets st"
  "ports (updateBadge b st) = ports st"
  "nativeWebSocket (updateBadge b st) = nativeWebSocket st"
  "popupPort (updateBadge b st) = popupPort st"
  "connectionPromise (updateBadge b st) = connectionPromise st"
  "awaiting_connection (updateBadge b st) = awaiting_connection st"
  "awaiting_storage (updateBadge b st) = awaiting_storage st"
  "session_isRecording (updateBadge b st) = session_isRecording st"
  "session_config (updateBadge b st) = session_config st"
  "local_transcript (updateBadge b st) = local_transcript st"
  "local_summary (updateBadge b st) = local_summary st"
  "alarm (updateBadge b st) = alarm st"
  "native_out (updateBadge b st) = native_out st"
  "ui_out (updateBadge b st) = ui_out st"
  by (simp_all add: updateBadge_def split: option.splits)

lemma storage_onChanged_frame [simp]:
  "sockets (storage_onChanged b st) = sockets st"
  "ports (storage_onChanged b st) = ports st"
  "nativeWebSocket (storage_onChanged b st) = nativeWebSocket st"
  "popupPort (storage_onChanged b st) = popupPort st"
  "connectionPromise (storage_onChanged b st) = connectionPromise st"
  "awaiting_connection (storage_onChanged b st) = awaiting_connection st"
  "awaiting_storage (storage_onChanged b st) = awaiting_storage st"
  "session_isRecording (storage_onChanged b st) = session_isRecording st"
  "session_config (storage_onChanged b st) = session_config st"
  "local_transcript (storage_onChanged b st) = local_transcript st"
  "local_summary (storage_onChanged b st) = local_summary st"
  "native_out (storage_onChanged b st) = native_out st"
  "ui_out (storage_onChanged b st) = ui_out st"
  by (simp_all add: storage_onChanged_def)

lemma session_set_isRecording_frame [simp]:
  "sockets (session_set_isRecording b st) = sockets st"
  "ports (session_set_isRecording b st) = ports st"
  "nativeWebSocket (session_set_isRecording b st) = nativeWebSocket st"
  "popupPort (session_set_isRecording b st) = popupPort st"
  "connectionPromise (session_set_isRecording b st) = connectionPromise st"
  "awaiting_connection (session_set_isRecording b st) = awaiting_connection st"
  "awaiting_storage (session_set_isRecording b st) = awaiting_storage st"
  "session_config (session_set_isRecording b st) = session_config st"
  "local_transcript (session_set_isRecording b st) = local_transcript st"
  "local_summary (session_set_isRecording b st) = local_summary st"
  "native_out (session_set_isRecording b st) = native_out st"
  "ui_out (session_set_isRecording b st) = ui_out st"
  by (simp_all add: session_set_isRecording_def)

lemma broadcastToUI_frame [simp]:
  "sockets (broadcastToUI m st) = sockets st"
  "ports (broadcastToUI m st) = ports st"
  "nativeWebSocket (broadcastToUI m st) = nativeWebSocket st"
  "popupPort (broadcastToUI m st) = popupPort st"
  "connectionPromise (broadcastToUI m st) = connectionPromise st"
  "awaiting_connection (broadcastToUI m st) = awaiting_connection st"
  "awaiting_storage (broadcastToUI m st) = awaiting_storage st"
  "session_isRecording (broadcastToUI m st) = session_isRecording st"
  "session_config (broadcastToUI m st) = session_config st"
  "local_transcript (broadcastToUI m st) = local_transcript st"
  "local_summary (broadcastToUI m st) = local_summary st"
  "alarm (broadcastToUI m st) = alarm st"
  "icon (broadcastToUI m st) = icon st"
  "badgeText (broadcastToUI m st) = badgeText st"
  "native_out (broadcastToUI m st) = native_out st"
  by (simp_all add: broadcastToUI_def postMessage_def split: option.splits)

lemma set_readyState_frame [simp]:
  "ports (set_readyState w r st) = ports st"
  "nativeWebSocket (set_readyState w r st) = nativeWebSocket st"
  "popupPort (set_readyState w r st) = popupPort st"
  "connectionPromise (set_readyState w r st) = connectionPromise st"
  "awaiting_connection (set_readyState w r st) = awaiting_connection st"
  "awaiting_storage (set_readyState w r st) = awaiting_storage st"
  "session_isRecording (set_readyState w r st) = session_isRecording st"
  "session_config (set_readyState w r st) = session_config st"
  "local_transcript (set_readyState w r st) = local_transcript st"
  "local_summary (set_readyState w r st) = local_summary st"
  "alarm (set_readyState w r st) = alarm st"
  "icon (set_readyState w r st) = icon st"
  "badgeText (set_readyState w r st) = badgeText st"
  "native_out (set_readyState w r st) = native_out st"
  "ui_out (set_readyState w r st) = ui_out st"
  by (simp_all add: set_readyState_def)

lemma setupWebSocketListeners_frame [simp]:
  "ports (setupWebSocketListeners w st) = ports st"
  "nativeWebSocket (setupWebSocketListeners w st) = nativeWebSocket st"
  "popupPort (setupWebSocketListeners w st) = popupPort st"
  "connectionPromise (setupWebSocketListeners w st) = connectionPromise st"
  "awaiting_connection (setupWebSocketListeners w st) = awaiting_connection st"
  "awaiting_storage (setupWebSocketListeners w st) = awaiting_storage st"
  "session_isRecording (setupWebSocketListeners w st) = session_isRecording st"
  "session_config (setupWebSocketListeners w st) = session_config st"
  "local_transcript (setupWebSocketListeners w st) = local_transcript st"
  "local_summary (setupWebSocketListeners w st) = local_summary st"
  "alarm (setupWebSocketListeners w st) = alarm st"
  "icon (setupWebSocketListeners w st) = icon st"
  "badgeText (setupWebSocketListeners w st) = badgeText st"
  "native_out (setupWebSocketListeners w st) = native_out st"
  "ui_out (setupWebSocketListeners w st) = ui_out st"
  by (simp_all add: setupWebSocketListeners_def)

lemma updateTranscriptStorage_frame [simp]:
  "sockets (updateTranscriptStorage t st) = sockets st"
  "ports (updateTranscriptStorage t st) = ports st"
  "nativeWebSocket (updateTranscriptStorage t st) = nativeWebSocket st"
  "popupPort (updateTranscriptStorage t st) = popupPort st"
  "connectionPromise (updateTranscriptStorage t st) = connectionPromise st"
  "awaiting_connection (updateTranscriptStorage t st) = awaiting_connection st"
  "session_isRecording (updateTranscriptStorage t st) = session_isRecording st"
  "session_config (updateTranscriptStorage t st) = session_config st"
  "local_transcript (updateTranscriptStorage t st) = local_transcript st"
  "local_summary (updateTranscriptStorage t st) = local_summary st"
  "alarm (updateTranscriptStorage t st) = alarm st"
  "icon (updateTranscriptStorage t st) = icon st"
  "badgeText (updateTranscriptStorage t st) = badgeText st"
  "native_out (updateTranscriptStorage t st) = native_out st"
  "ui_out (updateTranscriptStorage t st) = ui_out st"
  by (simp_all add: updateTranscriptStorage_def)

lemma session_set_isRecording_value [simp]:
  "session_isRecording (session_set_isRecording b st) = Some b"
  by (simp add: session_set_isRecording_def)

lemma socket_state_simps [simp]:
  "socket_state (updateIcon s st) w = socket_state st w"
  "socket_state (updateBadge b st) w = socket_state st w"
  "socket_state (session_set_isRecording b st) w = socket_state st w"
  "socket_state (broadcastToUI m st) w = socket_state st w"
  "socket_state (updateTranscriptStorage t st) w = socket_state st w"
  by (simp_all add: socket_state_def)

lemma socket_state_set_readyState [simp]:
  "socket_state (set_readyState w r st) v =
     (if v = w \<and> w < length (sockets st) then Some r else socket_state st v)"
  by (simp add: socket_state_def set_readyState_def)

lemma socket_state_setupWebSocketListeners [simp]:
  "socket_state (setupWebSocketListeners w st) v = socket_state st v"
  by (simp add: socket_state_def setupWebSocketListeners_def nth_list_update)

lemma socket_state_Some_less: "socket_state st w = Some r \<Longrightarrow> w < length (sockets st)"
  by (simp add: socket_state_def split: if_splits)

subsection \<open>Sending\<close>

lemma connection_open_iff:
  "connection_open st \<longleftrightarrow> (\<exists>w. nativeWebSocket st = Some w \<and> socket_state st w = Some OPEN)"
  by (simp add: connection_open_def split: option.splits)

lemma getWebSocket_open:
  "nativeWebSocket st = Some w \<Longrightarrow> socket_state st w = Some OPEN \<Longrightarrow>
   getWebSocket st = (Ready w, st)"
  by (simp add: getWebSocket_def)

lemma getWebSocket_pending:
  "\<not> connection_open st \<Longrightarrow> connectionPromise st = Some p \<Longrightarrow>
   getWebSocket st = (Pending p, st)"
  by (auto simp: getWebSocket_def connection_open_def split: option.splits)

lemma getWebSocket_connect:
  "\<not> connection_open st \<Longrightarrow> connectionPromise st = None \<Longrightarrow>
   getWebSocket st =
     (Pending (length (sockets st)),
      st\<lparr>sockets := sockets st @ [\<lparr>readyState = CONNECTING, has_listeners = False\<rparr>],
         connectionPromise := Some (length (sockets st))\<rparr>)"
  by (auto simp: getWebSocket_def connection_open_def split: option.splits)

lemma ws_send_open:
  "socket_state st w = Some OPEN \<Longrightarrow>
   ws_send w m st = Inr (st\<lparr>native_out := native_out st @ [(w, m)]\<rparr>)"
  by (simp add: ws_send_def)

lemma ws_send_throws_iff:
  "(\<exists>e. ws_send w m st = Inl e) \<longleftrightarrow> socket_state st w = Some CONNECTING"
  by (simp add: ws_send_def split: option.splits readyState.splits)

lemma resume_unawaited:
  "unawaited (sendMessageToNative_resume r m st) st =
     (case sendMessageToNative_try r m st of
        Inr st' \<Rightarrow> st'
      | Inl e \<Rightarrow> session_set_isRecording False (broadcastToUI connect_error_envelope st))"
  by (simp add: unawaited_def sendMessageToNative_resume_def split: sum.splits)

lemma resume_open:
  "socket_state st w = Some OPEN \<Longrightarrow>
   unawaited (sendMessageToNative_resume (Fulfilled w) m st) st =
     st\<lparr>native_out := native_out st @ [(w, m)]\<rparr>"
  by (simp add: resume_unawaited sendMessageToNative_try_def ws_send_open)

lemma resume_rejected:
  "unawaited (sendMessageToNative_resume Rejected m st) st =
     session_set_isRecording False (broadcastToUI connect_error_envelope st)"
  by (simp add: resume_unawaited sendMessageToNative_try_def)

lemma sendMessageToNative_open:
  "nativeWebSocket st = Some w \<Longrightarrow> socket_state st w = Some OPEN \<Longrightarrow>
   sendMessageToNative m st = st\<lparr>native_out := native_out st @ [(w, m)]\<rparr>"
  by (simp add: sendMessageToNative_def getWebSocket_open resume_open)

lemma sendMessageToNative_pending:
  "\<not> connection_open st \<Longrightarrow> connectionPromise st = Some p \<Longrightarrow>
   sendMessageToNative m st = st\<lparr>awaiting_connection := awaiting_connection st @ [(p, m)]\<rparr>"
  by (simp add: sendMessageToNative_def getWebSocket_pending)

lemma sendMessageToNative_connect:
  "\<not> connection_open st \<Longrightarrow> connectionPromise st = None \<Longrightarrow>
   sendMessageToNative m st =
     st\<lparr>sockets := sockets st @ [\<lparr>readyState = CONNECTING, has_listeners = False\<rparr>],
        connectionPromise := Some (length (sockets st)),
        awaiting_connection := awaiting_connection st @ [(length (sockets st), m)]\<rparr>"
  by (simp add: sendMessageToNative_def getWebSocket_connect)

lemma sendMessageToNative_cases:
  obtains (sent) w where "nativeWebSocket st = Some w" "socket_state st w = Some OPEN"
      "sendMessageToNative m st = st\<lparr>native_out := native_out st @ [(w, m)]\<rparr>"
  | (waits) p where "\<not> connection_open st" "connectionPromise st = Some p"
      "sendMessageToNative m st = st\<lparr>awaiting_connection := awaiting_connection st @ [(p, m)]\<rparr>"
  | (connects) "\<not> connection_open st" "connectionPromise st = None"
      "sendMessageToNative m st =
         st\<lparr>sockets := sockets st @ [\<lparr>readyState = CONNECTING, has_listeners = False\<rparr>],
            connectionPromise := Some (length (sockets st)),
            awaiting_connection := awaiting_connection st @ [(length (sockets st), m)]\<rparr>"
proof (cases "connection_open st")
  case True
  then obtain w where "nativeWebSocket st = Some w" "socket_state st w = Some OPEN"
    by (auto simp: connection_open_iff)
  then show ?thesis using sent sendMessageToNative_open by blast
next
  case False
  show ?thesis
  proof (cases "connectionPromise st")
    case None
    then show ?thesis using False connects sendMessageToNative_connect by blast
  next
    case (Some p)
    then show ?thesis using False waits sendMessageToNative_pending by blast
  qed
qed

lemma sendMessageToNative_frame [simp]:
  "ports (sendMessageToNative m st) = ports st"
  "nativeWebSocket (sendMessageToNative m st) = nativeWebSocket st"
  "popupPort (sendMessageToNative m st) = popupPort st"
  "awaiting_storage (sendMessageToNative m st) = awaiting_storage st"
  "session_isRecording (sendMessageToNative m st) = session_isRecording st"
  "session_config (sendMessageToNative m st) = session_config st"
  "local_transcript (sendMessageToNative m st) = local_transcript st"
  "local_summary (sendMessageToNative m st) = local_summary st"
  "alarm (sendMessageToNative m st) = alarm st"
  "icon (sendMessageToNative m st) = icon st"
  "badgeText (sendMessageToNative m st) = badgeText st"
  "ui_out (sendMessageToNative m st) = ui_out st"
  by (cases m st rule: sendMessageToNative_cases; simp)+

lemma foldl_preserves:
  "(\<And>s x. I s \<Longrightarrow> I (f s x)) \<Longrightarrow> I s \<Longrightarrow> I (foldl f s xs)"
  by (induction xs arbitrary: s) simp_all

subsection \<open>The alarm follows the flag\<close>

lemma alarm_follows_flag_same:
  "session_isRecording st' = session_isRecording st \<Longrightarrow> alarm st' = alarm st \<Longrightarrow>
   alarm_follows_flag st \<Longrightarrow> alarm_follows_flag st'"
  by (simp add: alarm_follows_flag_def)

lemma alarm_follows_flag_set:
  "alarm_follows_flag st \<Longrightarrow> alarm_follows_flag (session_set_isRecording b st)"
  by (simp add: alarm_follows_flag_def session_set_isRecording_def storage_onChanged_def)

lemma alarm_follows_flag_resume:
  "alarm_follows_flag st \<Longrightarrow>
   alarm_follows_flag (unawaited (sendMessageToNative_resume r m st) st)"
proof (cases "sendMessageToNative_try r m st")
  case (Inl e)
  assume "alarm_follows_flag st"
  then have "alarm_follows_flag (broadcastToUI connect_error_envelope st)"
    by (rule alarm_follows_flag_same [rotated 2]) simp_all
  then show ?thesis using Inl by (simp add: resume_unawaited alarm_follows_flag_set)
next
  case (Inr st')
  assume inv: "alarm_follows_flag st"
  from Inr have "session_isRecording st' = session_isRecording st \<and> alarm st' = alarm st"
    by (auto simp: sendMessageToNative_try_def ws_send_def
             split: settled.splits option.splits readyState.splits)
  then show ?thesis using Inr inv by (simp add: resume_unawaited alarm_follows_flag_def)
qed

lemma alarm_follows_flag_settle:
  assumes "alarm_follows_flag st"
  shows "alarm_follows_flag (settle p r st)"
  unfolding settle_def
proof (rule foldl_preserves [where I = alarm_follows_flag])
  show "alarm_follows_flag
          (st\<lparr>awaiting_connection := filter (\<lambda>qm. fst qm \<noteq> p) (awaiting_connection st)\<rparr>)"
    using assms by (simp add: alarm_follows_flag_def)
qed (rule alarm_follows_flag_resume)

lemma alarm_follows_flag_sendMessageToNative:
  "alarm_follows_flag st \<Longrightarrow> alarm_follows_flag (sendMessageToNative m st)"
  by (simp add: alarm_follows_flag_def)

lemma alarm_follows_flag_ws_onopen:
  "alarm_follows_flag st \<Longrightarrow> alarm_follows_flag (ws_onopen w st)"
  unfolding ws_onopen_def
  by (rule alarm_follows_flag_settle) (simp add: alarm_follows_flag_def)

lemma alarm_follows_flag_ws_onerror:
  "alarm_follows_flag st \<Longrightarrow> alarm_follows_flag (ws_onerror w st)"
  unfolding ws_onerror_def
  by (rule alarm_follows_flag_settle) (simp add: alarm_follows_flag_def)

lemma alarm_follows_flag_ws_onclose:
  "alarm_follows_flag st \<Longrightarrow> alarm_follows_flag (ws_onclose st)"
  unfolding ws_onclose_def
  by (rule alarm_follows_flag_set) (simp add: alarm_follows_flag_def)

lemma alarm_follows_flag_set_readyState:
  "alarm_follows_flag st \<Longrightarrow> alarm_follows_flag (set_readyState w r st)"
  by (simp add: alarm_follows_flag_def)

lemma alarm_follows_flag_ws_onmessage_try:
  "alarm_follows_flag st \<Longrightarrow> ws_onmessage_try now m st = Inr st' \<Longrightarrow> alarm_follows_flag st'"
  by (auto simp: ws_onmessage_try_def alarm_follows_flag_def session_set_isRecording_def
        storage_onChanged_def split: if_splits option.splits)

lemma alarm_follows_flag_ws_onmessage:
  "alarm_follows_flag st \<Longrightarrow> alarm_follows_flag (ws_onmessage P now data st)"
  by (auto simp: ws_onmessage_def alarm_follows_flag_ws_onmessage_try
        split: option.splits sum.splits)

lemma handleUICommand_flag [simp]:
  "session_isRecording (handleUICommand m st) = session_isRecording st"
  "alarm (handleUICommand m st) = alarm st"
  by (simp_all add: handleUICommand_def)

lemma alarm_follows_flag_handleUICommand:
  "alarm_follows_flag st \<Longrightarrow> alarm_follows_flag (handleUICommand m st)"
  by (simp add: alarm_follows_flag_def)

lemma resume_task_flag [simp]:
  "session_isRecording (resume_task now t st) = session_isRecording st"
  "alarm (resume_task now t st) = alarm st"
  by (cases t; simp add: unawaited_def updateTranscriptStorage_resume_def postMessage_def
                 split: option.splits sum.splits)+

lemma storage_reply_flag [simp]:
  "session_isRecording (storage_reply i now st) = session_isRecording st"
  "alarm (storage_reply i now st) = alarm st"
  by (simp_all add: storage_reply_def)

lemma alarm_follows_flag_storage_reply:
  "alarm_follows_flag st \<Longrightarrow> alarm_follows_flag (storage_reply i now st)"
  by (simp add: alarm_follows_flag_def)

lemma alarm_follows_flag_reset_state:
  "alarm_follows_flag st \<Longrightarrow> alarm_follows_flag (reset_state st)"
  using alarm_follows_flag_set [of st False]
  by (simp add: reset_state_def alarm_follows_flag_def)

lemma alarm_follows_flag_step:
  assumes "alarm_follows_flag st"
  shows "alarm_follows_flag (step P e st)"
proof (cases e)
  case (SocketClosed w failed)
  then show ?thesis using assms
    by (auto simp: alarm_follows_flag_ws_onclose alarm_follows_flag_ws_onerror
          alarm_follows_flag_set_readyState split: option.splits readyState.splits)
next
  case (PortConnect name)
  then show ?thesis using assms by (simp add: runtime_onConnect_def alarm_follows_flag_def)
next
  case (PortDisconnect p)
  then show ?thesis using assms by (simp add: port_onDisconnect_def alarm_follows_flag_def)
next
  case (AlarmFired name)
  then show ?thesis using assms
    by (simp add: alarms_onAlarm_def alarm_follows_flag_sendMessageToNative)
qed (use assms in \<open>simp_all add: alarm_follows_flag_reset_state alarm_follows_flag_handleUICommand
      alarm_follows_flag_ws_onopen alarm_follows_flag_set_readyState
      alarm_follows_flag_ws_onmessage alarm_follows_flag_storage_reply\<close>)

lemma alarm_follows_flag_run:
  "alarm_follows_flag st \<Longrightarrow> alarm_follows_flag (run P es st)"
  by (induction es arbitrary: st) (simp_all add: alarm_follows_flag_step)

lemma alarm_follows_flag_initial: "alarm_follows_flag initial_state"
  by (simp add: alarm_follows_flag_def initial_state_def)

subsection \<open>Evaluating examples\<close>

lemmas handler_defs =
  reset_state_def runtime_onConnect_def port_onDisconnect_def handleUICommand_def
  ws_onopen_def ws_onerror_def ws_onclose_def ws_onmessage_def ws_onmessage_try_def
  storage_reply_def alarms_onAlarm_def settle_def sendMessageToNative_def
  sendMessageToNative_resume_def sendMessageToNative_try_def unawaited_def ws_send_def
  getWebSocket_def socket_state_def set_readyState_def setupWebSocketListeners_def
  updateTranscriptStorage_def updateTranscriptStorage_resume_def broadcastToUI_def
  postMessage_def session_set_isRecording_def storage_onChanged_def updateBadge_def
  updateIcon_def msg_action_def js_template_def

lemmas example_defs =
  example_parse_def frame_recording_def frame_recording_error_def frame_hello_def
  frame_world_def frame_final_error_def frame_partial_def frame_status_plain_def
  frame_status_number_def msg_recording_def
  msg_recording_error_def msg_final_def msg_final_error_def msg_partial_def

lemma example_connected_value:
  "example_connected =
     \<lparr>sockets = [\<lparr>readyState = OPEN, has_listeners = True\<rparr>], ports = [],
      nativeWebSocket = Some 0, popupPort = None, connectionPromise = None,
      awaiting_connection = [], awaiting_storage = [],
      session_isRecording = None, session_config = None,
      local_transcript = None, local_summary = None,
      alarm = None, icon = Some Icon_idle, badgeText = '''',
      native_out = [(0, JObj [(''action'', JStr ''get_status'')])], ui_out = []\<rparr>"
  by (simp add: example_connected_def initial_state_def handler_defs)

lemma example_recording_value:
  "example_recording =
     \<lparr>sockets = [\<lparr>readyState = OPEN, has_listeners = True\<rparr>], ports = [],
      nativeWebSocket = Some 0, popupPort = None, connectionPromise = None,
      awaiting_connection = [], awaiting_storage = [],
      session_isRecording = Some True, session_config = None,
      local_transcript = None, local_summary = None,
      alarm = Some health_check_alarm, icon = Some Icon_recording, badgeText = ''REC'',
      native_out = [(0, JObj [(''action'', JStr ''get_status'')])], ui_out = []\<rparr>"
  by (simp add: example_recording_def example_connected_value handler_defs example_defs)

lemma example_attached_value:
  "example_attached =
     \<lparr>sockets = [\<lparr>readyState = OPEN, has_listeners = True\<rparr>],
      ports = [\<lparr>port_name = ''popup-connection'', connected = True\<rparr>],
      nativeWebSocket = Some 0, popupPort = Some 0, connectionPromise = None,
      awaiting_connection = [], awaiting_storage = [],
      session_isRecording = None, session_config = None,
      local_transcript = None, local_summary = None,
      alarm = None, icon = Some Icon_idle, badgeText = '''',
      native_out = [(0, JObj [(''action'', JStr ''get_status'')]),
                    (0, JObj [(''action'', JStr ''get_devices'')])],
      ui_out = [(0, INITIAL_STATE False '''' '''')]\<rparr>"
  by (simp add: example_attached_def initial_state_def handler_defs)

subsection \<open>Settling a connect attempt\<close>

lemma socket_state_native_out [simp]:
  "socket_state (st\<lparr>native_out := x\<rparr>) w = socket_state st w"
  by (simp add: socket_state_def)

lemma socket_state_awaiting_connection [simp]:
  "socket_state (st\<lparr>awaiting_connection := x\<rparr>) w = socket_state st w"
  by (simp add: socket_state_def)

lemma foldl_resume_open:
  "socket_state s w = Some OPEN \<Longrightarrow>
   foldl (\<lambda>s qm. unawaited (sendMessageToNative_resume (Fulfilled w) (snd qm) s) s) s xs
     = s\<lparr>native_out := native_out s @ map (\<lambda>qm. (w, snd qm)) xs\<rparr>"
  by (induction xs arbitrary: s) (simp_all add: resume_open)

lemma settle_fulfilled_open:
  "socket_state st w = Some OPEN \<Longrightarrow>
   settle p (Fulfilled w) st =
     st\<lparr>awaiting_connection := filter (\<lambda>qm. fst qm \<noteq> p) (awaiting_connection st),
        native_out := native_out st
          @ map (\<lambda>qm. (w, snd qm)) (filter (\<lambda>qm. fst qm = p) (awaiting_connection st))\<rparr>"
  by (simp add: settle_def foldl_resume_open)

lemma resume_flag:
  "session_isRecording (unawaited (sendMessageToNative_resume r m st) st) = session_isRecording st
   \<or> session_isRecording (unawaited (sendMessageToNative_resume r m st) st) = Some False"
  by (auto simp: resume_unawaited sendMessageToNative_try_def ws_send_def
        split: sum.splits settled.splits option.splits readyState.splits)

lemma settle_flag:
  "session_isRecording (settle p r st) = session_isRecording st
   \<or> session_isRecording (settle p r st) = Some False"
  unfolding settle_def
proof (rule foldl_preserves
    [where I = "\<lambda>s. session_isRecording s = session_isRecording st
                      \<or> session_isRecording s = Some False"])
  fix s :: state and x :: "nat \<times> json"
  assume "session_isRecording s = session_isRecording st \<or> session_isRecording s = Some False"
  then show "session_isRecording (unawaited (sendMessageToNative_resume r (snd x) s) s)
      = session_isRecording st
    \<or> session_isRecording (unawaited (sendMessageToNative_resume r (snd x) s) s) = Some False"
    using resume_flag [of r "snd x" s] by auto
qed simp

lemma socket_state_nativeWebSocket [simp]:
  "socket_state (st\<lparr>nativeWebSocket := x\<rparr>) w = socket_state st w"
  by (simp add: socket_state_def)

lemma socket_state_connectionPromise [simp]:
  "socket_state (st\<lparr>connectionPromise := x\<rparr>) w = socket_state st w"
  by (simp add: socket_state_def)

lemma ws_onopen_open:
  assumes "socket_state st w = Some OPEN"
  shows "ws_onopen w st =
     (updateIcon Icon_idle (setupWebSocketListeners w (st\<lparr>nativeWebSocket := Some w\<rparr>)))
       \<lparr>connectionPromise := None,
        awaiting_connection := filter (\<lambda>qm. fst qm \<noteq> w) (awaiting_connection st),
        native_out := native_out st
          @ map (\<lambda>qm. (w, snd qm)) (filter (\<lambda>qm. fst qm = w) (awaiting_connection st))\<rparr>"
proof -
  have "socket_state
      ((updateIcon Icon_idle (setupWebSocketListeners w (st\<lparr>nativeWebSocket := Some w\<rparr>)))
         \<lparr>connectionPromise := None\<rparr>) w = Some OPEN"
    using assms by simp
  then show ?thesis
    unfolding ws_onopen_def by (simp add: settle_fulfilled_open)
qed

lemma ws_onopen_flag:
  "socket_state st w = Some OPEN \<Longrightarrow>
   session_isRecording (ws_onopen w st) = session_isRecording st"
  by (simp add: ws_onopen_open)

lemma ws_onerror_flag:
  "session_isRecording (ws_onerror w st) = session_isRecording st
   \<or> session_isRecording (ws_onerror w st) = Some False"
  using settle_flag
    [of w Rejected "(updateIcon Icon_error (st\<lparr>nativeWebSocket := None\<rparr>))\<lparr>connectionPromise := None\<rparr>"]
  by (simp add: ws_onerror_def)

lemma ws_onclose_flag [simp]: "session_isRecording (ws_onclose st) = Some False"
  by (simp add: ws_onclose_def)

lemma reset_state_flag [simp]: "session_isRecording (reset_state st) = Some False"
  by (simp add: reset_state_def)

lemma ws_onmessage_try_flag:
  "ws_onmessage_try now m st = Inr st' \<Longrightarrow>
   session_isRecording st' =
     (if rule_matches StatusReport m then Some (js_get m ''is_recording'' = Some (JBool True))
      else if rule_matches ErrorReport m then Some False
      else session_isRecording st)"
  by (auto simp: ws_onmessage_try_def split: if_splits option.splits)

section \<open>The health-check alarm (C9)\<close>

text \<open>
  C9. In every state the script reaches from its start, by any events, the health-check
  alarm exists exactly when the session flag \<^verbatim>\<open>session_isRecording\<close> is true, and then it is
  the alarm created with a delay and a period of 0.3 minutes, under one minute. So an
  event changes the alarm only when it changes the flag; the command handler of the popup
  never touches the alarm. A tick of the alarm is one call of \<^verbatim>\<open>sendMessageToNative\<close> with
  \<^verbatim>\<open>{action: 'ping'}\<close>, which on an open connection transmits that one message.
\<close>

theorem health_check_alarm_follows_isRecording:
  "alarm (run P es initial_state) =
     (if session_isRecording (run P es initial_state) = Some True
      then Some health_check_alarm else None)
   \<and> 0 < periodInMinutes health_check_alarm \<and> periodInMinutes health_check_alarm < 1
   \<and> (alarm (step P e (run P es initial_state)) \<noteq> alarm (run P es initial_state) \<longrightarrow>
        session_isRecording (step P e (run P es initial_state))
          \<noteq> session_isRecording (run P es initial_state))
   \<and> alarm (handleUICommand message st) = alarm st
   \<and> alarms_onAlarm ALARM_HEALTH_CHECK st = sendMessageToNative (msg_action ''ping'') st
   \<and> (nativeWebSocket st = Some w \<and> socket_state st w = Some OPEN \<longrightarrow>
        native_out (alarms_onAlarm ALARM_HEALTH_CHECK st)
          = native_out st @ [(w, msg_action ''ping'')])"
proof -
  have reach: "alarm_follows_flag (run P es initial_state)"
    by (rule alarm_follows_flag_run) (rule alarm_follows_flag_initial)
  then have next_reach: "alarm_follows_flag (step P e (run P es initial_state))"
    by (rule alarm_follows_flag_step)
  have period: "0 < periodInMinutes health_check_alarm \<and> periodInMinutes health_check_alarm < 1"
    by (simp add: health_check_alarm_def)
  have changes: "alarm (step P e (run P es initial_state)) \<noteq> alarm (run P es initial_state) \<longrightarrow>
        session_isRecording (step P e (run P es initial_state))
          \<noteq> session_isRecording (run P es initial_state)"
    using reach next_reach by (auto simp: alarm_follows_flag_def)
  have tick: "nativeWebSocket st = Some w \<and> socket_state st w = Some OPEN \<longrightarrow>
        native_out (alarms_onAlarm ALARM_HEALTH_CHECK st)
          = native_out st @ [(w, msg_action ''ping'')]"
    by (simp add: alarms_onAlarm_def sendMessageToNative_open)
  show ?thesis
    using reach period changes tick by (simp add: alarm_follows_flag_def alarms_onAlarm_def)
qed

text \<open>
  The popup asks for the status, the connection opens and the native process reports that
  it is recording: the flag becomes true and the alarm is created by that event; a tick on
  the open connection then sends one ping.
\<close>

theorem health_check_alarm_follows_isRecording_witness:
  "session_isRecording
     (run example_parse
        [PortMessage (JObj [(''type'', JStr ''GET_STATUS'')]), SocketOpen 0,
         SocketMessage 0 frame_recording ''10:00:00''] initial_state) = Some True
   \<and> alarm
       (run example_parse
          [PortMessage (JObj [(''type'', JStr ''GET_STATUS'')]), SocketOpen 0,
           SocketMessage 0 frame_recording ''10:00:00''] initial_state) = Some health_check_alarm
   \<and> alarm (step example_parse (SocketMessage 0 frame_recording ''10:00:00'')
               (run example_parse
                  [PortMessage (JObj [(''type'', JStr ''GET_STATUS'')]), SocketOpen 0] initial_state))
       \<noteq> alarm (run example_parse
                  [PortMessage (JObj [(''type'', JStr ''GET_STATUS'')]), SocketOpen 0] initial_state)
   \<and> session_isRecording
         (step example_parse (SocketMessage 0 frame_recording ''10:00:00'')
            (run example_parse
               [PortMessage (JObj [(''type'', JStr ''GET_STATUS'')]), SocketOpen 0] initial_state))
       \<noteq> session_isRecording
            (run example_parse
               [PortMessage (JObj [(''type'', JStr ''GET_STATUS'')]), SocketOpen 0] initial_state)
   \<and> nativeWebSocket example_connected = Some 0
   \<and> socket_state example_connected 0 = Some OPEN
   \<and> native_out (alarms_onAlarm ALARM_HEALTH_CHECK example_connected)
       = native_out example_connected @ [(0, msg_action ''ping'')]"
proof -
  have connected: "run example_parse
      [PortMessage (JObj [(''type'', JStr ''GET_STATUS'')]), SocketOpen 0] initial_state
      = example_connected"
    by (simp add: example_connected_def)
  have reported: "run example_parse
      [PortMessage (JObj [(''type'', JStr ''GET_STATUS'')]), SocketOpen 0,
       SocketMessage 0 frame_recording ''10:00:00''] initial_state
      = step example_parse (SocketMessage 0 frame_recording ''10:00:00'') example_connected"
    by (simp add: example_connected_def)
  have flag: "session_isRecording
      (step example_parse (SocketMessage 0 frame_recording ''10:00:00'') example_connected)
      = Some True"
    by (simp add: example_connected_value handler_defs example_defs)
  have sock: "nativeWebSocket example_connected = Some 0
      \<and> socket_state example_connected 0 = Some OPEN"
    by (simp add: example_connected_value socket_state_def)
  have before: "session_isRecording example_connected = None \<and> alarm example_connected = None"
    by (simp add: example_connected_value)
  show ?thesis
    unfolding reported connected
    using health_check_alarm_follows_isRecording
            [of example_parse
                "[PortMessage (JObj [(''type'', JStr ''GET_STATUS'')]), SocketOpen 0,
                  SocketMessage 0 frame_recording ''10:00:00'']"
                "SocketOpen 0" JNull example_connected 0, unfolded reported]
          flag sock before
    by (simp del: step.simps add: alarms_onAlarm_def sendMessageToNative_open)
qed

section \<open>Who writes the recording flag (C8)\<close>

text \<open>
  C8 as stated: the flag \<^verbatim>\<open>session_isRecording\<close> is written only by the message router and
  by the startup and install resets. This fails: the close handler of the socket writes it
  too. On the connection over which the native process reported that it is recording, the
  socket closes (cleanly, no message arrives, no reset runs) and the flag goes from true
  to false.
\<close>

theorem isRecording_written_on_close_counterexample:
  "session_isRecording example_recording = Some True
   \<and> session_isRecording (step example_parse (SocketClosed 0 False) example_recording)
       = Some False
   \<and> \<not> router_or_reset (SocketClosed 0 False)"
  by (simp add: example_recording_value handler_defs)

text \<open>
  C8, amended. An event changes the flag only if it is a message on a socket (the message
  router), a socket that closes (its close handler, and the \<^verbatim>\<open>catch\<close> of the calls of
  \<^verbatim>\<open>sendMessageToNative\<close> that waited for the failed connect attempt), or a startup or
  install reset. A closing socket and a reset can only set it to false. A message changes
  it only as a status report, to whether \<^verbatim>\<open>is_recording\<close> is the boolean true, or else as
  an error message, to false. Handling a command of the popup, START_CAPTURE and
  STOP_CAPTURE among them, never changes the flag.
\<close>

theorem isRecording_writers:
  "(session_isRecording (step P e st) \<noteq> session_isRecording st \<longrightarrow>
      router_or_reset e \<or> socket_closed e)
   \<and> (session_isRecording (step P e st) \<noteq> session_isRecording st
        \<and> (socket_closed e \<or> e = Startup \<or> e = Installed) \<longrightarrow>
      session_isRecording (step P e st) = Some False)
   \<and> (session_isRecording (step P e st) \<noteq> session_isRecording st
        \<and> e = SocketMessage w data now \<longrightarrow>
      (\<exists>m. P data = Some m
         \<and> (if rule_matches StatusReport m
             then session_isRecording (step P e st)
                    = Some (js_get m ''is_recording'' = Some (JBool True))
             else rule_matches ErrorReport m \<and> session_isRecording (step P e st) = Some False)))
   \<and> session_isRecording (handleUICommand message st) = session_isRecording st
   \<and> session_isRecording (step P (PortMessage message) st) = session_isRecording st"
proof -
  have closed: "session_isRecording (step P (SocketClosed v failed) st) = session_isRecording st
      \<or> session_isRecording (step P (SocketClosed v failed) st) = Some False" for v failed
    using ws_onerror_flag [of v "set_readyState v CLOSED st"]
    by (auto split: option.splits readyState.splits)
  have opened: "session_isRecording (step P (SocketOpen v) st) = session_isRecording st" for v
    by (auto simp: ws_onopen_flag dest: socket_state_Some_less)
  have message: "session_isRecording (step P (SocketMessage v d n) st) \<noteq> session_isRecording st
      \<Longrightarrow> \<exists>m. P d = Some m
         \<and> (if rule_matches StatusReport m
             then session_isRecording (step P (SocketMessage v d n) st)
                    = Some (js_get m ''is_recording'' = Some (JBool True))
             else rule_matches ErrorReport m
                  \<and> session_isRecording (step P (SocketMessage v d n) st) = Some False)"
    for v d n
  proof -
    assume changed: "session_isRecording (step P (SocketMessage v d n) st) \<noteq> session_isRecording st"
    then obtain m st' where m: "P d = Some m" "ws_onmessage_try n m st = Inr st'"
        "step P (SocketMessage v d n) st = st'"
      by (auto simp: ws_onmessage_def split: if_splits option.splits sum.splits)
    from ws_onmessage_try_flag [OF m(2)] changed m(3)
    have "if rule_matches StatusReport m
          then session_isRecording st' = Some (js_get m ''is_recording'' = Some (JBool True))
          else rule_matches ErrorReport m \<and> session_isRecording st' = Some False"
      by (auto split: if_splits)
    with m show ?thesis by auto
  qed
  have others: "session_isRecording (step P e st) = session_isRecording st"
    if "\<not> router_or_reset e" "\<not> socket_closed e"
    using that opened
    by (cases e) (simp_all add: runtime_onConnect_def port_onDisconnect_def alarms_onAlarm_def)
  have one: "session_isRecording (step P e st) \<noteq> session_isRecording st \<longrightarrow>
      router_or_reset e \<or> socket_closed e"
    using others by blast
  have two: "session_isRecording (step P e st) \<noteq> session_isRecording st
        \<and> (socket_closed e \<or> e = Startup \<or> e = Installed) \<longrightarrow>
      session_isRecording (step P e st) = Some False"
  proof (cases e)
    case (SocketClosed v failed)
    then show ?thesis using closed [of v failed] by (auto simp del: step.simps)
  qed simp_all
  have three: "session_isRecording (step P e st) \<noteq> session_isRecording st
        \<and> e = SocketMessage w data now \<longrightarrow>
      (\<exists>m. P data = Some m
         \<and> (if rule_matches StatusReport m
             then session_isRecording (step P e st)
                    = Some (js_get m ''is_recording'' = Some (JBool True))
             else rule_matches ErrorReport m \<and> session_isRecording (step P e st) = Some False))"
    using message by blast
  show ?thesis
    using one two three by simp
qed

text \<open>
  The status report of the example sets the flag; the socket that closes afterwards clears
  it.
\<close>

theorem isRecording_writers_witness:
  "session_isRecording
      (step example_parse (SocketMessage 0 frame_recording ''10:00:00'') example_connected)
     \<noteq> session_isRecording example_connected
   \<and> router_or_reset (SocketMessage 0 frame_recording ''10:00:00'')
   \<and> example_parse frame_recording = Some msg_recording
   \<and> rule_matches StatusReport msg_recording
   \<and> session_isRecording
        (step example_parse (SocketMessage 0 frame_recording ''10:00:00'') example_connected)
       = Some (js_get msg_recording ''is_recording'' = Some (JBool True))
   \<and> session_isRecording (step example_parse (SocketClosed 0 False) example_recording)
       \<noteq> session_isRecording example_recording
   \<and> socket_closed (SocketClosed 0 False)
   \<and> session_isRecording (step example_parse (SocketClosed 0 False) example_recording)
       = Some False"
proof -
  have changed: "session_isRecording
      (step example_parse (SocketMessage 0 frame_recording ''10:00:00'') example_connected)
     \<noteq> session_isRecording example_connected"
    by (simp add: example_connected_value handler_defs example_defs)
  have parsed: "example_parse frame_recording = Some msg_recording
      \<and> rule_matches StatusReport msg_recording"
    by (simp add: example_defs)
  have cleared: "session_isRecording (step example_parse (SocketClosed 0 False) example_recording)
       \<noteq> session_isRecording example_recording"
    by (simp add: example_recording_value handler_defs)
  show ?thesis
    using isRecording_writers
            [of example_parse "SocketMessage 0 frame_recording ''10:00:00''" example_connected
                0 frame_recording "''10:00:00''" JNull]
          isRecording_writers
            [of example_parse "SocketClosed 0 False" example_recording
                0 frame_recording "''10:00:00''" JNull]
          changed parsed cleared
    by (simp del: step.simps)
qed

section \<open>Status reports (C7)\<close>

text \<open>
  C7. For every inbound message with \<^verbatim>\<open>action == 'get_status'\<close> the handler leaves the
  session flag set to whether the field \<^verbatim>\<open>is_recording\<close> of the message is the boolean
  true: to true for that value, to false when the field is absent or holds anything else.
\<close>

theorem get_status_sets_isRecording:
  assumes "P data = Some message"
    and "js_get message ''action'' = Some (JStr ''get_status'')"
  shows "session_isRecording (ws_onmessage P now data st)
           = Some (js_get message ''is_recording'' = Some (JBool True))"
proof -
  from assms(2) have "message \<noteq> JNull" by auto
  with assms show ?thesis
    by (simp add: ws_onmessage_def ws_onmessage_try_def)
qed

text \<open>
  A report with \<^verbatim>\<open>is_recording: true\<close> sets the flag; one without the field and one with
  the number 1 in it clear the flag again.
\<close>

theorem get_status_sets_isRecording_witness:
  "example_parse frame_recording = Some msg_recording
   \<and> js_get msg_recording ''action'' = Some (JStr ''get_status'')
   \<and> session_isRecording (ws_onmessage example_parse ''10:00:00'' frame_recording example_connected)
       = Some True
   \<and> example_parse frame_status_plain = Some (JObj [(''action'', JStr ''get_status'')])
   \<and> session_isRecording (ws_onmessage example_parse ''10:00:01'' frame_status_plain example_recording)
       = Some False
   \<and> example_parse frame_status_number
       = Some (JObj [(''action'', JStr ''get_status''), (''is_recording'', JNum ''1'')])
   \<and> session_isRecording (ws_onmessage example_parse ''10:00:01'' frame_status_number example_recording)
       = Some False"
proof -
  have a: "example_parse frame_recording = Some msg_recording"
    and b: "example_parse frame_status_plain = Some (JObj [(''action'', JStr ''get_status'')])"
    and c: "example_parse frame_status_number
       = Some (JObj [(''action'', JStr ''get_status''), (''is_recording'', JNum ''1'')])"
    by (simp_all add: example_defs)
  show ?thesis
    using get_status_sets_isRecording
            [of example_parse frame_recording msg_recording "''10:00:00''" example_connected, OF a]
          get_status_sets_isRecording
            [of example_parse frame_status_plain "JObj [(''action'', JStr ''get_status'')]"
                "''10:00:01''" example_recording, OF b]
          get_status_sets_isRecording
            [of example_parse frame_status_number
                "JObj [(''action'', JStr ''get_status''), (''is_recording'', JNum ''1'')]"
                "''10:00:01''" example_recording, OF c]
          a b c
    by (simp add: msg_recording_def)
qed

section \<open>Frames that do not parse (C4)\<close>

text \<open>
  C4. A frame whose payload \<^verbatim>\<open>JSON.parse\<close> rejects is dropped: the handler leaves the
  whole state as it was (session and durable storage, the messages posted to the popup,
  and everything else; the handler only logs), and so does the event of its arrival.
\<close>

theorem unparseable_frame_dropped:
  "P data = None \<Longrightarrow>
   ws_onmessage P now data st = st \<and> step P (SocketMessage w data now) st = st"
  by (simp add: ws_onmessage_def)

theorem unparseable_frame_dropped_witness:
  "example_parse ''{not json'' = None
   \<and> ws_onmessage example_parse ''10:00:02'' ''{not json'' example_recording = example_recording
   \<and> step example_parse (SocketMessage 0 ''{not json'' ''10:00:02'') example_recording
       = example_recording"
proof -
  have a: "example_parse ''{not json'' = None"
    by (simp add: example_defs)
  show ?thesis
    using unparseable_frame_dropped
            [of example_parse "''{not json''" "''10:00:02''" example_recording 0] a
    by (simp del: step.simps)
qed

section \<open>Transcript messages that are not final (C10)\<close>

text \<open>
  C10. For every inbound message with \<^verbatim>\<open>action == 'transcript'\<close> whose \<^verbatim>\<open>type\<close> is not
  \<^verbatim>\<open>'final'\<close> and which matches no other dispatch rule (with that action only the rule for
  \<^verbatim>\<open>status == 'error'\<close> could match), the handler does nothing but forward the message: the
  durable transcript and summary, the session flag and the pending storage reads stay as
  they are, and the whole message goes through \<^verbatim>\<open>broadcastToUI\<close> as a NATIVE_APP_MESSAGE,
  which an attached popup receives.
\<close>

theorem non_final_transcript_only_forwarded:
  assumes "P data = Some message"
    and "js_get message ''action'' = Some (JStr ''transcript'')"
    and "js_get message ''type'' \<noteq> Some (JStr ''final'')"
    and "\<not> rule_matches ErrorReport message"
  shows "ws_onmessage P now data st = broadcastToUI (NATIVE_APP_MESSAGE message) st
    \<and> local_transcript (ws_onmessage P now data st) = local_transcript st
    \<and> local_summary (ws_onmessage P now data st) = local_summary st
    \<and> session_isRecording (ws_onmessage P now data st) = session_isRecording st
    \<and> awaiting_storage (ws_onmessage P now data st) = awaiting_storage st
    \<and> (popupPort st = Some p \<and> p < length (ports st) \<and> connected (ports st ! p) \<longrightarrow>
          ui_out (ws_onmessage P now data st) = ui_out st @ [(p, NATIVE_APP_MESSAGE message)])"
proof -
  from assms(2) have "message \<noteq> JNull" by auto
  with assms have "ws_onmessage P now data st = broadcastToUI (NATIVE_APP_MESSAGE message) st"
    by (simp add: ws_onmessage_def ws_onmessage_try_def)
  moreover have "ui_out (broadcastToUI (NATIVE_APP_MESSAGE message) st)
      = ui_out st @ [(p, NATIVE_APP_MESSAGE message)]"
    if "popupPort st = Some p \<and> p < length (ports st) \<and> connected (ports st ! p)"
    using that by (simp add: broadcastToUI_def postMessage_def)
  ultimately show ?thesis
    by simp
qed

theorem non_final_transcript_only_forwarded_witness:
  "example_parse frame_partial = Some msg_partial
   \<and> js_get msg_partial ''action'' = Some (JStr ''transcript'')
   \<and> js_get msg_partial ''type'' \<noteq> Some (JStr ''final'')
   \<and> \<not> rule_matches ErrorReport msg_partial
   \<and> popupPort example_attached = Some 0 \<and> 0 < length (ports example_attached)
   \<and> connected (ports example_attached ! 0)
   \<and> local_transcript (ws_onmessage example_parse ''10:00:03'' frame_partial example_attached)
       = local_transcript example_attached
   \<and> ui_out (ws_onmessage example_parse ''10:00:03'' frame_partial example_attached)
       = ui_out example_attached @ [(0, NATIVE_APP_MESSAGE msg_partial)]"
proof -
  have a: "example_parse frame_partial = Some msg_partial"
    and b: "js_get msg_partial ''action'' = Some (JStr ''transcript'')"
    and c: "js_get msg_partial ''type'' \<noteq> Some (JStr ''final'')"
    and d: "\<not> rule_matches ErrorReport msg_partial"
    by (simp_all add: example_defs)
  have e: "popupPort example_attached = Some 0 \<and> 0 < length (ports example_attached)
      \<and> connected (ports example_attached ! 0)"
    by (simp add: example_attached_value)
  show ?thesis
    using non_final_transcript_only_forwarded
            [of example_parse frame_partial msg_partial "''10:00:03''" example_attached 0,
             OF a b c d]
          a b c d e
    by blast
qed

section \<open>Failures of sending (C3)\<close>

text \<open>
  C3. For every message passed to \<^verbatim>\<open>sendMessageToNative\<close>: the promise of the function is
  never rejected, so no exception reaches a caller. If the connect attempt it waited for
  is rejected, or \<^verbatim>\<open>ws.send\<close> throws, the function calls \<^verbatim>\<open>broadcastToUI\<close> (the function the
  message handler forwards native messages with) on the synthetic error envelope and then
  writes false to the session flag; an attached popup receives the envelope.
\<close>

theorem send_failure_reported:
  "(\<exists>st'. sendMessageToNative_resume r message st = Inr st')
   \<and> (r = Rejected \<or> (\<exists>w e. r = Fulfilled w \<and> ws_send w message st = Inl e) \<longrightarrow>
        sendMessageToNative_resume r message st
          = Inr (session_set_isRecording False (broadcastToUI connect_error_envelope st))
        \<and> session_isRecording (unawaited (sendMessageToNative_resume r message st) st)
            = Some False
        \<and> (popupPort st = Some p \<and> p < length (ports st) \<and> connected (ports st ! p) \<longrightarrow>
              ui_out (unawaited (sendMessageToNative_resume r message st) st)
                = ui_out st @ [(p, connect_error_envelope)]))"
proof -
  have never_rejected: "\<exists>st'. sendMessageToNative_resume r message st = Inr st'"
    by (simp add: sendMessageToNative_resume_def split: sum.splits)
  have caught: "sendMessageToNative_resume r message st
          = Inr (session_set_isRecording False (broadcastToUI connect_error_envelope st))"
    if "r = Rejected \<or> (\<exists>w e. r = Fulfilled w \<and> ws_send w message st = Inl e)"
    using that by (auto simp: sendMessageToNative_resume_def sendMessageToNative_try_def)
  have posted: "ui_out (session_set_isRecording False (broadcastToUI connect_error_envelope st))
      = ui_out st @ [(p, connect_error_envelope)]"
    if "popupPort st = Some p \<and> p < length (ports st) \<and> connected (ports st ! p)"
    using that by (simp add: broadcastToUI_def postMessage_def)
  show ?thesis
    using never_rejected caught posted by (auto simp: unawaited_def)
qed

text \<open>
  With the popup attached: a rejected connect attempt, and a transmit on a socket that is
  still connecting (socket 1, for which the example makes a second attempt).
\<close>

theorem send_failure_reported_witness:
  "popupPort example_attached = Some 0 \<and> 0 < length (ports example_attached)
   \<and> connected (ports example_attached ! 0)
   \<and> session_isRecording
       (unawaited (sendMessageToNative_resume Rejected (msg_action ''stop_capture'') example_attached)
          example_attached) = Some False
   \<and> ui_out
       (unawaited (sendMessageToNative_resume Rejected (msg_action ''stop_capture'') example_attached)
          example_attached) = ui_out example_attached @ [(0, connect_error_envelope)]
   \<and> ws_send 1 (msg_action ''ping'') (snd (getWebSocket (set_readyState 0 CLOSED example_attached)))
       = Inl InvalidStateError
   \<and> session_isRecording
       (unawaited
          (sendMessageToNative_resume (Fulfilled 1) (msg_action ''ping'')
             (snd (getWebSocket (set_readyState 0 CLOSED example_attached))))
          (snd (getWebSocket (set_readyState 0 CLOSED example_attached)))) = Some False"
proof -
  have e: "popupPort example_attached = Some 0 \<and> 0 < length (ports example_attached)
      \<and> connected (ports example_attached ! 0)"
    by (simp add: example_attached_value)
  have t: "ws_send 1 (msg_action ''ping'')
            (snd (getWebSocket (set_readyState 0 CLOSED example_attached)))
       = Inl InvalidStateError"
    by (simp add: example_attached_value handler_defs)
  note rejected =
    send_failure_reported [of Rejected "msg_action ''stop_capture''" example_attached 0]
  note thrown =
    send_failure_reported
      [of "Fulfilled 1" "msg_action ''ping''"
          "snd (getWebSocket (set_readyState 0 CLOSED example_attached))" 0]
  from rejected e have a1: "session_isRecording
       (unawaited (sendMessageToNative_resume Rejected (msg_action ''stop_capture'') example_attached)
          example_attached) = Some False"
    and a2: "ui_out
       (unawaited (sendMessageToNative_resume Rejected (msg_action ''stop_capture'') example_attached)
          example_attached) = ui_out example_attached @ [(0, connect_error_envelope)]"
    by blast+
  from thrown t have a3: "session_isRecording
       (unawaited
          (sendMessageToNative_resume (Fulfilled 1) (msg_action ''ping'')
             (snd (getWebSocket (set_readyState 0 CLOSED example_attached))))
          (snd (getWebSocket (set_readyState 0 CLOSED example_attached)))) = Some False"
    by blast
  from e t a1 a2 a3 show ?thesis
    by blast
qed

section \<open>One connect attempt at a time (C2)\<close>

lemma connection_open_after_connect:
  "\<not> connection_open st \<Longrightarrow>
   \<not> connection_open
       (st\<lparr>sockets := sockets st @ [\<lparr>readyState = CONNECTING, has_listeners = False\<rparr>],
          connectionPromise := Some (length (sockets st))\<rparr>)"
  by (auto simp: connection_open_def socket_state_def nth_append split: option.splits if_splits)

lemma getWebSocket_calls_pending:
  "\<not> connection_open st \<Longrightarrow> connectionPromise st = Some p \<Longrightarrow>
   getWebSocket_calls n st = (replicate n (Pending p), st)"
  by (induction n) (simp_all add: getWebSocket_pending)

lemma settle_rejected:
  "settle p Rejected st =
     foldl (\<lambda>s qm. session_set_isRecording False (broadcastToUI connect_error_envelope s))
       (st\<lparr>awaiting_connection := filter (\<lambda>qm. fst qm \<noteq> p) (awaiting_connection st)\<rparr>)
       (filter (\<lambda>qm. fst qm = p) (awaiting_connection st))"
  by (simp add: settle_def resume_rejected)

text \<open>
  Calls of \<^verbatim>\<open>getWebSocket\<close> in a row, with no event between them. If the connection the
  script holds is open, it is returned at once and nothing changes. Otherwise, if the
  script holds a pending promise, every call returns it and starts nothing; if it holds
  none, the first call starts one attempt and it and all the calls after it return the
  promise of that attempt. The callers that wait for the promise of an attempt all get
  its one outcome.
\<close>

lemma getWebSocket_calls_in_a_row:
  "(connection_open st \<longrightarrow>
      (\<exists>w. nativeWebSocket st = Some w \<and> getWebSocket st = (Ready w, st)))
   \<and> (\<not> connection_open st \<and> connectionPromise st = Some p \<longrightarrow>
        getWebSocket_calls n st = (replicate n (Pending p), st))
   \<and> (\<not> connection_open st \<and> connectionPromise st = None \<longrightarrow>
        getWebSocket_calls (Suc n) st =
          (replicate (Suc n) (Pending (length (sockets st))),
           st\<lparr>sockets := sockets st @ [\<lparr>readyState = CONNECTING, has_listeners = False\<rparr>],
              connectionPromise := Some (length (sockets st))\<rparr>))
   \<and> (\<not> connection_open st \<longrightarrow>
        length (sockets (snd (getWebSocket_calls n st))) \<le> Suc (length (sockets st)))
   \<and> (socket_state st p = Some OPEN \<longrightarrow>
        native_out (settle p (Fulfilled p) st) =
          native_out st @ filter (\<lambda>qm. fst qm = p) (awaiting_connection st))
   \<and> settle p Rejected st =
        foldl (\<lambda>s qm. session_set_isRecording False (broadcastToUI connect_error_envelope s))
          (st\<lparr>awaiting_connection := filter (\<lambda>qm. fst qm \<noteq> p) (awaiting_connection st)\<rparr>)
          (filter (\<lambda>qm. fst qm = p) (awaiting_connection st))"
proof -
  have opened: "connection_open st \<longrightarrow>
      (\<exists>w. nativeWebSocket st = Some w \<and> getWebSocket st = (Ready w, st))"
    by (auto simp: connection_open_iff getWebSocket_open)
  have in_flight: "getWebSocket_calls k st = (replicate k (Pending q), st)"
    if "\<not> connection_open st" "connectionPromise st = Some q" for k q
    using that by (rule getWebSocket_calls_pending)
  have fresh: "getWebSocket_calls (Suc k) st =
          (replicate (Suc k) (Pending (length (sockets st))),
           st\<lparr>sockets := sockets st @ [\<lparr>readyState = CONNECTING, has_listeners = False\<rparr>],
              connectionPromise := Some (length (sockets st))\<rparr>)"
    if closed: "\<not> connection_open st" and none: "connectionPromise st = None" for k
  proof -
    let ?st' = "st\<lparr>sockets := sockets st @ [\<lparr>readyState = CONNECTING, has_listeners = False\<rparr>],
              connectionPromise := Some (length (sockets st))\<rparr>"
    have "getWebSocket_calls k ?st' = (replicate k (Pending (length (sockets st))), ?st')"
      by (rule getWebSocket_calls_pending) (simp_all add: connection_open_after_connect closed)
    then show ?thesis
      by (simp add: getWebSocket_connect closed none)
  qed
  have at_most_one: "length (sockets (snd (getWebSocket_calls n st))) \<le> Suc (length (sockets st))"
    if closed: "\<not> connection_open st"
  proof (cases "connectionPromise st")
    case None
    show ?thesis
    proof (cases n)
      case 0
      then show ?thesis by simp
    next
      case (Suc k)
      then show ?thesis using fresh [OF closed None, of k] by simp
    qed
  next
    case (Some q)
    then show ?thesis using in_flight [OF closed Some, of n] by simp
  qed
  have same_socket: "native_out (settle p (Fulfilled p) st) =
          native_out st @ filter (\<lambda>qm. fst qm = p) (awaiting_connection st)"
    if "socket_state st p = Some OPEN"
  proof -
    have "map (\<lambda>qm. (p, snd qm)) (filter (\<lambda>qm. fst qm = p) xs) = filter (\<lambda>qm. fst qm = p) xs"
      for xs :: "(nat \<times> json) list"
      by (induction xs) auto
    then show ?thesis using that by (simp add: settle_fulfilled_open)
  qed
  show ?thesis
    using opened in_flight fresh at_most_one same_socket settle_rejected by blast
qed

text \<open>
  C2. While no connection is open and a connect attempt is in flight, a call of
  \<^verbatim>\<open>getWebSocket\<close> is to return that pending attempt and start no second one, so that at
  most one attempt exists at a time. The script does not keep to this. The handler
  \<^verbatim>\<open>onerror\<close> of a socket stays installed after the socket has opened, and its \<^verbatim>\<open>cleanup\<close>
  clears \<^verbatim>\<open>connectionPromise\<close> whichever attempt the promise belongs to. In the run of the
  example socket 0 is closing when the second request starts the attempt of socket 1;
  the error of socket 0 then clears the promise of socket 1. No connection is open,
  socket 1 is still connecting and the first caller still waits for it, yet the next call
  starts the attempt of socket 2 and returns its promise: two attempts are in flight and
  the two callers wait for different ones.
\<close>

theorem second_connect_attempt_while_first_in_flight:
  "map readyState (sockets example_stale_error) = [CLOSED, CONNECTING]
   \<and> connection_open example_stale_error = False
   \<and> connectionPromise example_stale_error = None
   \<and> awaiting_connection example_stale_error = [(1, msg_action ''get_status'')]
   \<and> fst (getWebSocket example_stale_error) = Pending 2
   \<and> map readyState (sockets (snd (getWebSocket example_stale_error)))
       = [CLOSED, CONNECTING, CONNECTING]
   \<and> awaiting_connection
        (step example_parse (PortMessage (JObj [(''type'', JStr ''GET_DEVICES'')]))
           example_stale_error)
       = [(1, msg_action ''get_status''), (2, msg_action ''get_devices'')]"
  by (simp add: example_stale_error_def initial_state_def connection_open_def handler_defs)

section \<open>The dispatch rules of the router (C1)\<close>

text \<open>
  C1 as stated: the four dispatch rules are evaluated independently, and a message that
  matches more than one triggers the update of every matching rule. This fails: the
  handler tests the rules in an \<^verbatim>\<open>if ... else if\<close> chain. The message of the claim, with
  \<^verbatim>\<open>action == 'get_status'\<close>, \<^verbatim>\<open>is_recording == true\<close> and \<^verbatim>\<open>status == 'error'\<close>, matches the
  status rule and the error rule; the handler leaves the flag true, the update of the
  status rule alone, where firing both rules in turn would leave it false.
\<close>

theorem router_rules_not_independent_counterexample:
  "rule_matches StatusReport msg_recording_error
   \<and> rule_matches ErrorReport msg_recording_error
   \<and> example_parse frame_recording_error = Some msg_recording_error
   \<and> session_isRecording
        (ws_onmessage example_parse ''10:00:00'' frame_recording_error example_connected)
       = Some True
   \<and> flag_after (ws_onmessage_try ''10:00:00'' msg_recording_error example_connected) = Some True
   \<and> flag_after (route_as_specified ''10:00:00'' msg_recording_error example_connected)
       = Some False"
  by (simp add: example_connected_value handler_defs example_defs flag_after_def
        route_as_specified_def forward_def dispatch_rules_def)

text \<open>
  C1, amended. For every inbound native message other than \<^verbatim>\<open>null\<close> the router tests its
  four dispatch rules as a chain, in the order status report, error, final transcript,
  summary update: the state update of the first rule that matches fires, and that of no
  other rule, so a message that matches more than one rule (as one with
  \<^verbatim>\<open>action == 'get_status'\<close> and \<^verbatim>\<open>status == 'error'\<close>) triggers the update of the first
  matching rule only. The theorem gives the whole outcome of the handler: for
  \<^verbatim>\<open>null\<close> a TypeError; otherwise the update of the first matching rule (none, if no rule
  matches) and after it, unless that update threw, the call of \<^verbatim>\<open>broadcastToUI\<close>. It also
  gives one direction of a comparison: on a message that matches at most one rule the
  handler does what firing every matching rule does.
\<close>

theorem router_fires_first_matching_rule:
  "ws_onmessage_try now message st =
     (if message = JNull then Inl TypeError
      else forward message
             (case find (\<lambda>r. rule_matches r message) dispatch_rules of
                None \<Rightarrow> Inr st
              | Some r \<Rightarrow> rule_update r now message st))
   \<and> (length (filter (\<lambda>r. rule_matches r message) dispatch_rules) \<le> 1 \<longrightarrow>
        ws_onmessage_try now message st = route_as_specified now message st)"
proof -
  have first_match: "ws_onmessage_try now message st =
     (if message = JNull then Inl TypeError
      else forward message
             (case find (\<lambda>r. rule_matches r message) dispatch_rules of
                None \<Rightarrow> Inr st
              | Some r \<Rightarrow> rule_update r now message st))"
    by (simp add: ws_onmessage_try_def dispatch_rules_def forward_def split: option.splits)
  have as_specified: "ws_onmessage_try now message st = route_as_specified now message st"
    if "length (filter (\<lambda>r. rule_matches r message) dispatch_rules) \<le> 1"
  proof (cases "message = JNull")
    case True
    then show ?thesis by (simp add: ws_onmessage_try_def route_as_specified_def)
  next
    case False
    show ?thesis
    proof (cases "rule_matches StatusReport message")
      case True
      with that have "\<not> rule_matches ErrorReport message" "\<not> rule_matches FinalTranscript message"
        "\<not> rule_matches SummaryUpdate message"
        by (auto simp: dispatch_rules_def split: if_splits)
      with True False show ?thesis
        by (simp add: ws_onmessage_try_def route_as_specified_def dispatch_rules_def forward_def)
    next
      case no_status: False
      show ?thesis
      proof (cases "rule_matches ErrorReport message")
        case True
        with that have "\<not> rule_matches FinalTranscript message"
          "\<not> rule_matches SummaryUpdate message"
          by (auto simp: dispatch_rules_def split: if_splits)
        with True False no_status show ?thesis
          by (auto simp: ws_onmessage_try_def route_as_specified_def dispatch_rules_def forward_def)
      next
        case no_error: False
        show ?thesis
        proof (cases "rule_matches FinalTranscript message")
          case True
          with that have "\<not> rule_matches SummaryUpdate message"
            by (auto simp: dispatch_rules_def split: if_splits)
          with True False no_status no_error show ?thesis
            by (auto simp: ws_onmessage_try_def route_as_specified_def dispatch_rules_def forward_def)
        next
          case no_final: False
          with False no_status no_error show ?thesis
            by (auto simp: ws_onmessage_try_def route_as_specified_def dispatch_rules_def forward_def
                  split: option.splits)
        qed
      qed
    qed
  qed
  show ?thesis
    using first_match as_specified by blast
qed

text \<open>
  Likewise a final transcript segment that also carries \<^verbatim>\<open>status == 'error'\<close> gets the
  update of the error rule only: no storage read is issued for its line.
\<close>

lemma first_match_withholds_transcript_update:
  "rule_matches ErrorReport msg_final_error \<and> rule_matches FinalTranscript msg_final_error
   \<and> example_parse frame_final_error = Some msg_final_error
   \<and> session_isRecording
        (step example_parse (SocketMessage 0 frame_final_error ''10:00:01'') example_recording)
       = Some False
   \<and> awaiting_storage
        (step example_parse (SocketMessage 0 frame_final_error ''10:00:01'') example_recording)
       = []"
  by (simp add: example_recording_value handler_defs example_defs)

text \<open>
  For the message that matches the status rule and the error rule, the first match is the
  status rule and its update is the whole effect.
\<close>

theorem router_fires_first_matching_rule_witness:
  "find (\<lambda>r. rule_matches r msg_recording_error) dispatch_rules = Some StatusReport
   \<and> ws_onmessage_try ''10:00:00'' msg_recording_error example_connected
       = forward msg_recording_error
           (rule_update StatusReport ''10:00:00'' msg_recording_error example_connected)
   \<and> length (filter (\<lambda>r. rule_matches r msg_recording) dispatch_rules) \<le> 1
   \<and> ws_onmessage_try ''10:00:00'' msg_recording example_connected
       = route_as_specified ''10:00:00'' msg_recording example_connected"
proof -
  have a: "find (\<lambda>r. rule_matches r msg_recording_error) dispatch_rules = Some StatusReport"
    by (simp add: dispatch_rules_def example_defs)
  have b: "msg_recording_error \<noteq> JNull"
    by (simp add: example_defs)
  have c: "length (filter (\<lambda>r. rule_matches r msg_recording) dispatch_rules) \<le> 1"
    by (simp add: dispatch_rules_def example_defs)
  note both =
    router_fires_first_matching_rule [of "''10:00:00''" msg_recording_error example_connected]
  note one =
    router_fires_first_matching_rule [of "''10:00:00''" msg_recording example_connected]
  from both a b have d: "ws_onmessage_try ''10:00:00'' msg_recording_error example_connected
       = forward msg_recording_error
           (rule_update StatusReport ''10:00:00'' msg_recording_error example_connected)"
    by simp
  from one c have e: "ws_onmessage_try ''10:00:00'' msg_recording example_connected
       = route_as_specified ''10:00:00'' msg_recording example_connected"
    by blast
  from a c d e show ?thesis
    by blast
qed

section \<open>Appending final transcript segments (C5)\<close>

lemma join_lines_Cons: "join_lines (l # ls) = (if ls = [] then l else l @ newline @ join_lines ls)"
  by (cases ls) simp_all

lemma join_lines_flatten:
  "xs \<noteq> [] \<Longrightarrow> join_lines (join_lines xs # ys) = join_lines (xs @ ys)"
proof (induction xs rule: join_lines.induct)
  case 1
  then show ?case by simp
next
  case (2 l)
  then show ?case by simp
next
  case (3 l m ls)
  then show ?case by (cases ys) (simp_all add: join_lines_Cons)
qed

lemma join_lines_snoc_nonempty: "l \<noteq> [] \<Longrightarrow> join_lines (xs @ [l]) \<noteq> []"
  by (cases xs) (simp_all add: join_lines_Cons newline_def)

lemma stored_lines_append_line:
  "l \<noteq> [] \<Longrightarrow>
   join_lines (stored_lines (Some (join_lines (stored_lines tr @ [l]))) @ ls)
     = join_lines (stored_lines tr @ l # ls)"
  using join_lines_flatten [of "stored_lines tr @ [l]" ls] join_lines_snoc_nonempty [of l "stored_lines tr"]
  by (simp add: stored_lines_def)

lemma transcript_line_nonempty: "transcript_line now t \<noteq> []"
  by (simp add: transcript_line_def)

lemma final_transcript_round:
  assumes "socket_state st w = Some OPEN" and "has_listeners (sockets st ! w)"
    and "awaiting_storage st = []"
    and "is_final_transcript_frame P (data, arrived, now, t)"
  shows "sockets (run P [SocketMessage w data arrived, StorageReply 0 now] st) = sockets st
    \<and> awaiting_storage (run P [SocketMessage w data arrived, StorageReply 0 now] st) = []
    \<and> local_transcript (run P [SocketMessage w data arrived, StorageReply 0 now] st)
        = Some (join_lines (stored_lines (local_transcript st) @ [transcript_line now t]))"
proof -
  from assms(4) obtain m where m: "P data = Some m" "rule_matches FinalTranscript m"
      "\<not> rule_matches ErrorReport m" "js_template (js_get m ''text'') = Some t"
    by (auto simp: is_final_transcript_frame_def split: option.splits)
  from m(2) have not_null: "m \<noteq> JNull" by auto
  have received: "step P (SocketMessage w data arrived) st
      = broadcastToUI (NATIVE_APP_MESSAGE m) (updateTranscriptStorage (js_get m ''text'') st)"
    using assms(1,2) m not_null by (simp add: ws_onmessage_def ws_onmessage_try_def)
  have queued: "awaiting_storage (step P (SocketMessage w data arrived) st)
      = [TranscriptRead (local_transcript st) (js_get m ''text'')]"
    and kept: "sockets (step P (SocketMessage w data arrived) st) = sockets st"
      "local_transcript (step P (SocketMessage w data arrived) st) = local_transcript st"
    unfolding received using assms(3) by (simp_all add: updateTranscriptStorage_def)
  have "run P [SocketMessage w data arrived, StorageReply 0 now] st
      = storage_reply 0 now (step P (SocketMessage w data arrived) st)"
    by (simp del: step.simps(9))
  then show ?thesis
    using queued kept m(4)
    by (simp add: storage_reply_def updateTranscriptStorage_resume_def unawaited_def
          stored_lines_def transcript_line_def join_lines_Cons del: step.simps
          split: option.splits)
qed

text \<open>
  What the handler does when no update overlaps another. Take messages on the open
  connection with \<^verbatim>\<open>action == 'transcript'\<close> and \<^verbatim>\<open>type == 'final'\<close> that do not carry
  \<^verbatim>\<open>status == 'error'\<close> and whose text can be rendered, with no storage read pending at the
  start and the storage read of each message answered before the next message arrives.
  Then each message appends one line, the lines are joined by single newlines with no
  separator before the first line of an empty transcript, and they stand in arrival
  order.
\<close>

lemma final_transcripts_appended_in_turn:
  assumes "socket_state st w = Some OPEN" and "has_listeners (sockets st ! w)"
    and "awaiting_storage st = []"
    and "\<forall>f \<in> set frames. is_final_transcript_frame P f"
  shows "local_transcript (run P (deliver_in_turn w frames) st) =
           (if frames = [] then local_transcript st
            else Some (join_lines
                   (stored_lines (local_transcript st)
                    @ map (\<lambda>(data, arrived, now, t). transcript_line now t) frames)))"
  using assms
proof (induction frames arbitrary: st)
  case Nil
  then show ?case by simp
next
  case (Cons f fs)
  obtain data arrived now t where f: "f = (data, arrived, now, t)"
    by (cases f) auto
  let ?st' = "run P [SocketMessage w data arrived, StorageReply 0 now] st"
  from Cons.prems f have frame: "is_final_transcript_frame P (data, arrived, now, t)"
    by simp
  note round = final_transcript_round [OF Cons.prems(1,2,3) frame]
  from round Cons.prems have "socket_state ?st' w = Some OPEN" "has_listeners (sockets ?st' ! w)"
      "awaiting_storage ?st' = []"
    by (auto simp: socket_state_def simp del: run_Cons split: if_splits)
  moreover from Cons.prems have "\<forall>f \<in> set fs. is_final_transcript_frame P f"
    by simp
  ultimately have "local_transcript (run P (deliver_in_turn w fs) ?st') =
      (if fs = [] then local_transcript ?st'
       else Some (join_lines
              (stored_lines (local_transcript ?st')
               @ map (\<lambda>(data, arrived, now, t). transcript_line now t) fs)))"
    by (rule Cons.IH)
  moreover have "run P (deliver_in_turn w (f # fs)) st = run P (deliver_in_turn w fs) ?st'"
    by (simp add: f)
  ultimately show ?case
    using round by (simp add: f stored_lines_append_line transcript_line_nonempty del: run_Cons)
qed

text \<open>
  C5. Every inbound message with \<^verbatim>\<open>action == 'transcript'\<close> and \<^verbatim>\<open>type == 'final'\<close> is to
  append one line to the durable transcript, the lines in arrival order; the frames
  \<^verbatim>\<open>hello\<close> and \<^verbatim>\<open>world\<close> are to give two lines. The script does not keep to this.
  \<^verbatim>\<open>updateTranscriptStorage\<close> reads the transcript, awaits the reply and only then writes
  what it read plus its line. When \<^verbatim>\<open>world\<close> arrives before the read of \<^verbatim>\<open>hello\<close> is
  answered, both reads return the transcript as it was; \<^verbatim>\<open>hello\<close> writes its line, then
  \<^verbatim>\<open>world\<close> writes the old transcript plus its own line over it. One line is left and the
  line of \<^verbatim>\<open>hello\<close> is lost.
\<close>

theorem transcript_line_lost_when_updates_overlap:
  "example_parse frame_hello = Some (msg_final ''hello'')
   \<and> example_parse frame_world = Some (msg_final ''world'')
   \<and> local_transcript example_connected = None
   \<and> awaiting_storage
        (run example_parse
           [SocketMessage 0 frame_hello ''10:00:01'', SocketMessage 0 frame_world ''10:00:02'']
           example_connected)
       = [TranscriptRead None (Some (JStr ''hello'')), TranscriptRead None (Some (JStr ''world''))]
   \<and> local_transcript
        (run example_parse
           [SocketMessage 0 frame_hello ''10:00:01'', SocketMessage 0 frame_world ''10:00:02'',
            StorageReply 0 ''10:00:03'']
           example_connected)
       = Some ''[10:00:03] hello''
   \<and> local_transcript
        (run example_parse
           [SocketMessage 0 frame_hello ''10:00:01'', SocketMessage 0 frame_world ''10:00:02'',
            StorageReply 0 ''10:00:03'', StorageReply 0 ''10:00:04'']
           example_connected)
       = Some ''[10:00:04] world''"
  by (simp add: example_connected_value handler_defs example_defs)

section \<open>Clearing the transcript (C6)\<close>

lemma example_transcribing_value:
  "example_transcribing =
     \<lparr>sockets = [\<lparr>readyState = OPEN, has_listeners = True\<rparr>],
      ports = [\<lparr>port_name = ''popup-connection'', connected = True\<rparr>],
      nativeWebSocket = Some 0, popupPort = Some 0, connectionPromise = None,
      awaiting_connection = [],
      awaiting_storage = [TranscriptRead (Some ''[10:00:02] hello'') (Some (JStr ''hello''))],
      session_isRecording = None, session_config = None,
      local_transcript = Some ''[10:00:02] hello'', local_summary = None,
      alarm = None, icon = Some Icon_idle, badgeText = '''',
      native_out = [(0, JObj [(''action'', JStr ''get_status'')]),
                    (0, JObj [(''action'', JStr ''get_devices'')])],
      ui_out = [(0, INITIAL_STATE False '''' ''''),
                (0, NATIVE_APP_MESSAGE (msg_final ''hello'')),
                (0, NATIVE_APP_MESSAGE (msg_final ''hello''))]\<rparr>"
  by (simp add: example_transcribing_def example_attached_value handler_defs example_defs)

lemma resume_task_awaiting_storage:
  "\<exists>extra. awaiting_storage (resume_task now t s) = awaiting_storage s @ extra"
  by (cases t) (auto simp: unawaited_def updateTranscriptStorage_resume_def postMessage_def
                  split: option.splits sum.splits)

lemma replies_reach_task:
  "awaiting_storage s = q @ T # r \<Longrightarrow> length nows = length q \<Longrightarrow>
   \<exists>r'. awaiting_storage (run P (map (StorageReply 0) nows) s) = T # r'"
proof (induction q arbitrary: s nows r)
  case Nil
  then show ?case by simp
next
  case (Cons t q)
  then obtain n ns where nows: "nows = n # ns" "length ns = length q"
    by (cases nows) auto
  let ?s = "s\<lparr>awaiting_storage := q @ T # r\<rparr>"
  have "step P (StorageReply 0 n) s = resume_task n t ?s"
    using Cons.prems(1) by (simp add: storage_reply_def)
  moreover obtain extra where "awaiting_storage (resume_task n t ?s) = awaiting_storage ?s @ extra"
    using resume_task_awaiting_storage by blast
  ultimately have "awaiting_storage (step P (StorageReply 0 n) s) = q @ T # (r @ extra)"
    by simp
  from Cons.IH [OF this nows(2)] show ?case
    by (simp add: nows(1))
qed

lemma reply_to_transcript_read:
  "awaiting_storage s = TranscriptRead cur txt # r \<Longrightarrow> js_template txt = Some t \<Longrightarrow>
   local_transcript (step P (StorageReply 0 now) s)
     = Some (join_lines (stored_lines cur @ [transcript_line now t]))"
  by (simp add: storage_reply_def updateTranscriptStorage_resume_def unawaited_def
        stored_lines_def transcript_line_def split: option.splits)

text \<open>
  What the handler of the command does, and one order of events in which the transcript
  ends as one line. A CLEAR_TRANSCRIPT command writes the empty string to the durable
  transcript and to the durable summary and passes the synthetic cleared envelope to
  \<^verbatim>\<open>broadcastToUI\<close> (an attached popup receives it); it sends nothing to the native process
  and starts no connect attempt. When the command is followed at once, on the open
  connection, by one message with \<^verbatim>\<open>action == 'transcript'\<close> and \<^verbatim>\<open>type == 'final'\<close> that does
  not carry \<^verbatim>\<open>status == 'error'\<close> and whose text can be rendered, and only after that
  message the storage reads pending before the command are answered, in the order they
  were issued, and then the read of the message, the durable transcript ends as the one
  line of that message.
\<close>

lemma clear_then_final_transcript:
  assumes clear: "js_get command ''type'' = Some (JStr ''CLEAR_TRANSCRIPT'')"
  shows "handleUICommand command st =
           broadcastToUI
             (NATIVE_APP_MESSAGE (JObj [(''action'', JStr ''transcript''), (''type'', JStr ''clear'')]))
             (st\<lparr>local_transcript := Some '''', local_summary := Some ''''\<rparr>)
    \<and> local_transcript (handleUICommand command st) = Some ''''
    \<and> local_summary (handleUICommand command st) = Some ''''
    \<and> native_out (handleUICommand command st) = native_out st
    \<and> sockets (handleUICommand command st) = sockets st
    \<and> connectionPromise (handleUICommand command st) = connectionPromise st
    \<and> awaiting_connection (handleUICommand command st) = awaiting_connection st
    \<and> (popupPort st = Some p \<and> p < length (ports st) \<and> connected (ports st ! p) \<longrightarrow>
          ui_out (handleUICommand command st)
            = ui_out st
              @ [(p, NATIVE_APP_MESSAGE
                       (JObj [(''action'', JStr ''transcript''), (''type'', JStr ''clear'')]))])
    \<and> (socket_state st w = Some OPEN \<and> has_listeners (sockets st ! w)
         \<and> is_final_transcript_frame P (data, arrived, now, t)
         \<and> length nows = length (awaiting_storage st) \<longrightarrow>
          local_transcript
            (run P (PortMessage command # SocketMessage w data arrived
                    # map (StorageReply 0) nows @ [StorageReply 0 now]) st)
            = Some (transcript_line now t))"
proof -
  from clear have not_null: "command \<noteq> JNull" by auto
  have handled: "handleUICommand command st =
           broadcastToUI
             (NATIVE_APP_MESSAGE (JObj [(''action'', JStr ''transcript''), (''type'', JStr ''clear'')]))
             (st\<lparr>local_transcript := Some '''', local_summary := Some ''''\<rparr>)"
    using clear not_null by (simp add: handleUICommand_def)
  have posted: "ui_out (handleUICommand command st)
            = ui_out st
              @ [(p, NATIVE_APP_MESSAGE
                       (JObj [(''action'', JStr ''transcript''), (''type'', JStr ''clear'')]))]"
    if "popupPort st = Some p \<and> p < length (ports st) \<and> connected (ports st ! p)"
    unfolding handled using that by (simp add: broadcastToUI_def postMessage_def)
  have round: "local_transcript
            (run P (PortMessage command # SocketMessage w data arrived
                    # map (StorageReply 0) nows @ [StorageReply 0 now]) st)
            = Some (transcript_line now t)"
    if sock: "socket_state st w = Some OPEN" "has_listeners (sockets st ! w)"
      and frame: "is_final_transcript_frame P (data, arrived, now, t)"
      and len: "length nows = length (awaiting_storage st)"
  proof -
    let ?st1 = "handleUICommand command st"
    let ?st2 = "step P (SocketMessage w data arrived) ?st1"
    from frame obtain m where m: "P data = Some m" "rule_matches FinalTranscript m"
        "\<not> rule_matches ErrorReport m" "js_template (js_get m ''text'') = Some t"
      by (auto simp: is_final_transcript_frame_def split: option.splits)
    from m(2) have m_not_null: "m \<noteq> JNull" by auto
    have sock1: "socket_state ?st1 w = Some OPEN" "has_listeners (sockets ?st1 ! w)"
      unfolding handled using sock by (auto simp: socket_state_def split: if_splits)
    have "?st2 = broadcastToUI (NATIVE_APP_MESSAGE m) (updateTranscriptStorage (js_get m ''text'') ?st1)"
      using sock1 m m_not_null by (simp add: ws_onmessage_def ws_onmessage_try_def)
    then have queued: "awaiting_storage ?st2
        = awaiting_storage st @ TranscriptRead (Some '''') (js_get m ''text'') # []"
      unfolding handled by (simp add: updateTranscriptStorage_def)
    from replies_reach_task [OF queued len, of P]
    obtain r' where "awaiting_storage (run P (map (StorageReply 0) nows) ?st2)
        = TranscriptRead (Some '''') (js_get m ''text'') # r'"
      by blast
    from reply_to_transcript_read [OF this m(4), of P now]
    have "local_transcript
        (step P (StorageReply 0 now) (run P (map (StorageReply 0) nows) ?st2))
        = Some (transcript_line now t)"
      by (simp add: stored_lines_def)
    moreover have "step P (PortMessage command) st = handleUICommand command st"
      by simp
    ultimately show ?thesis
      by (simp add: run_append del: step.simps)
  qed
  show ?thesis
    using handled posted round
    by (simp del: run_Cons step.simps)
qed

text \<open>
  C6. A CLEAR_TRANSCRIPT followed by one message with \<^verbatim>\<open>action == 'transcript'\<close> and
  \<^verbatim>\<open>type == 'final'\<close> is to leave the durable transcript equal to exactly one formatted
  line, with nothing of its earlier content. The script does not keep to this, by the
  same read, await and write of \<^verbatim>\<open>updateTranscriptStorage\<close> that loses a line in C5. In
  the state of the example the transcript holds the line of a first segment and the
  update of a second segment is pending, with that line as the value it read. The command
  empties the transcript; the pending update is answered and writes the old line back,
  with its own after it; the frame \<^verbatim>\<open>world\<close> then arrives and its update appends a third
  line.
\<close>

theorem stale_update_survives_clear:
  "local_transcript example_transcribing = Some ''[10:00:02] hello''
   \<and> awaiting_storage example_transcribing
       = [TranscriptRead (Some ''[10:00:02] hello'') (Some (JStr ''hello''))]
   \<and> local_transcript
        (run example_parse [PortMessage (JObj [(''type'', JStr ''CLEAR_TRANSCRIPT'')])]
           example_transcribing)
       = Some ''''
   \<and> local_transcript
        (run example_parse
           [PortMessage (JObj [(''type'', JStr ''CLEAR_TRANSCRIPT'')]), StorageReply 0 ''10:00:05'']
           example_transcribing)
       = Some (''[10:00:02] hello'' @ newline @ ''[10:00:05] hello'')
   \<and> example_parse frame_world = Some (msg_final ''world'')
   \<and> local_transcript
        (run example_parse
           [PortMessage (JObj [(''type'', JStr ''CLEAR_TRANSCRIPT'')]), StorageReply 0 ''10:00:05'',
            SocketMessage 0 frame_world ''10:00:06'', StorageReply 0 ''10:00:07'']
           example_transcribing)
       = Some (''[10:00:02] hello'' @ newline @ ''[10:00:05] hello'' @ newline
               @ ''[10:00:07] world'')"
  by (simp add: example_transcribing_value handler_defs example_defs)

end
